theory Spec2Isabelle
  imports Main "HOL-Library.Word"
begin

section \<open>Errors (error.go)\<close>

datatype ErrorCode =
    ErrUnmatchedOpenTag
  | ErrEmptyTag
  | ErrSectionNoClosingTag
  | ErrInterleavedClosingTag
  | ErrInvalidMetaTag
  | ErrUnmatchedCloseTag
  | ErrInvalidVariable

text \<open>
  The values of Go's \<open>error\<close> interface that the engine produces or passes on.
  \<open>ParseError line code reason\<close>, \<open>MissingVariableError name\<close> and
  \<open>InvalidVariableError name\<close> are the three types of error.go.  The others are the
  errors built in place: \<open>NumError\<close> is the \<open>*strconv.NumError\<close> of \<open>strconv.Atoi\<close>
  (with the rejected text), \<open>MissingFunction\<close> is \<open>fmt.Errorf("missing function %q", s)\<close>,
  \<open>LambdaSignature\<close> and \<open>LambdaError\<close> are the two \<open>fmt.Errorf\<close> of \<open>renderSection\<close>,
  \<open>UnexpectedElement\<close> is the one of \<open>getElementText\<close>, and \<open>HostError\<close> is any error
  value handed back by host code (a callable, a \<open>Lookup\<close> method, a formatter, the
  partial provider).
\<close>

datatype error =
    ParseError nat ErrorCode string
  | MissingVariableError string
  | InvalidVariableError string
  | NumError string
  | MissingFunction string
  | LambdaSignature string
  | LambdaError string error
  | UnexpectedElement
  | HostError string

definition newError :: "nat \<Rightarrow> ErrorCode \<Rightarrow> error" where
  "newError line code = ParseError line code []"

definition newErrorWithReason :: "nat \<Rightarrow> ErrorCode \<Rightarrow> string \<Rightarrow> error" where
  "newErrorWithReason line code reason = ParseError line code reason"

definition newMissingVariableError :: "string \<Rightarrow> error" where
  "newMissingVariableError name = MissingVariableError name"

fun IsMissingVariableError :: "error \<Rightarrow> bool" where
  "IsMissingVariableError (MissingVariableError n) = True"
| "IsMissingVariableError _ = False"

text \<open>
  A Go call either panics, returns a non-nil error, or returns normally.
\<close>

datatype 'a result = Panic | Err error | Ok 'a

section \<open>Strings (Go's strings package on byte strings)\<close>

text \<open>
  A Go string is a sequence of bytes; \<open>char\<close> is a byte.  \<open>slice s i j\<close> is \<open>s[i:j]\<close>
  for \<open>i \<le> j \<le> len(s)\<close>.
\<close>

definition slice :: "string \<Rightarrow> nat \<Rightarrow> nat \<Rightarrow> string" where
  "slice s i j = take (j - i) (drop i s)"

abbreviation LF :: char where "LF \<equiv> CHR 0x0A"
abbreviation CR :: char where "CR \<equiv> CHR 0x0D"
abbreviation TAB :: char where "TAB \<equiv> CHR 0x09"
abbreviation SP :: char where "SP \<equiv> CHR '' ''"

text \<open>
  \<open>unicode.IsSpace\<close> on the UTF-8 encoded runes of a byte string: the number of bytes
  of the white-space rune a string starts with, 0 when it starts with none.  The runes
  are U+0009..U+000D, U+0020, U+0085, U+00A0, U+1680, U+2000..U+200A, U+2028, U+2029,
  U+202F, U+205F and U+3000.
\<close>

fun spaceRune :: "string \<Rightarrow> nat" where
  "spaceRune [] = 0"
| "spaceRune [a] = (if a \<in> {TAB, LF, CHR 0x0B, CHR 0x0C, CR, SP} then 1 else 0)"
| "spaceRune [a, b] =
     (if a \<in> {TAB, LF, CHR 0x0B, CHR 0x0C, CR, SP} then 1
      else if a = CHR 0xC2 \<and> (b = CHR 0x85 \<or> b = CHR 0xA0) then 2 else 0)"
| "spaceRune (a # b # c # s) =
     (if a \<in> {TAB, LF, CHR 0x0B, CHR 0x0C, CR, SP} then 1
      else if a = CHR 0xC2 \<and> (b = CHR 0x85 \<or> b = CHR 0xA0) then 2
      else if a = CHR 0xE1 \<and> b = CHR 0x9A \<and> c = CHR 0x80 then 3
      else if a = CHR 0xE2 \<and> b = CHR 0x80 \<and>
              (c \<in> {CHR 0x80, CHR 0x81, CHR 0x82, CHR 0x83, CHR 0x84, CHR 0x85, CHR 0x86,
                     CHR 0x87, CHR 0x88, CHR 0x89, CHR 0x8A, CHR 0xA8, CHR 0xA9, CHR 0xAF})
           then 3
      else if a = CHR 0xE2 \<and> b = CHR 0x81 \<and> c = CHR 0x9F then 3
      else if a = CHR 0xE3 \<and> b = CHR 0x80 \<and> c = CHR 0x80 then 3
      else 0)"

text \<open>The same for the rune a string ends with, read on the reversed string.\<close>

fun spaceRuneRev :: "string \<Rightarrow> nat" where
  "spaceRuneRev [] = 0"
| "spaceRuneRev [a] = (if a \<in> {TAB, LF, CHR 0x0B, CHR 0x0C, CR, SP} then 1 else 0)"
| "spaceRuneRev [b, a] =
     (if b \<in> {TAB, LF, CHR 0x0B, CHR 0x0C, CR, SP} then 1
      else if a = CHR 0xC2 \<and> (b = CHR 0x85 \<or> b = CHR 0xA0) then 2 else 0)"
| "spaceRuneRev (c # b # a # s) =
     (if c \<in> {TAB, LF, CHR 0x0B, CHR 0x0C, CR, SP} then 1
      else if b = CHR 0xC2 \<and> (c = CHR 0x85 \<or> c = CHR 0xA0) then 2
      else if a = CHR 0xE1 \<and> b = CHR 0x9A \<and> c = CHR 0x80 then 3
      else if a = CHR 0xE2 \<and> b = CHR 0x80 \<and>
              (c \<in> {CHR 0x80, CHR 0x81, CHR 0x82, CHR 0x83, CHR 0x84, CHR 0x85, CHR 0x86,
                     CHR 0x87, CHR 0x88, CHR 0x89, CHR 0x8A, CHR 0xA8, CHR 0xA9, CHR 0xAF})
           then 3
      else if a = CHR 0xE2 \<and> b = CHR 0x81 \<and> c = CHR 0x9F then 3
      else if a = CHR 0xE3 \<and> b = CHR 0x80 \<and> c = CHR 0x80 then 3
      else 0)"

lemma spaceRune_le: "spaceRune s \<le> length s"
  by (induction s rule: spaceRune.induct) auto

lemma spaceRuneRev_le: "spaceRuneRev s \<le> length s"
  by (induction s rule: spaceRuneRev.induct) auto

text \<open>
  \<open>strings.TrimSpace\<close>: white-space runes are removed from the front, then from the
  back.
\<close>

function trimLeft :: "string \<Rightarrow> string" where
  "trimLeft s = (if spaceRune s = 0 then s else trimLeft (drop (spaceRune s) s))"
  by pat_completeness auto
termination
proof (relation "measure length")
  show "wf (measure (length :: string \<Rightarrow> nat))" by simp
next
  fix s :: string
  assume "spaceRune s \<noteq> 0"
  moreover have "spaceRune s \<le> length s" by (rule spaceRune_le)
  ultimately show "(drop (spaceRune s) s, s) \<in> measure length" by simp
qed

function trimRightRev :: "string \<Rightarrow> string" where
  "trimRightRev s = (if spaceRuneRev s = 0 then s else trimRightRev (drop (spaceRuneRev s) s))"
  by pat_completeness auto
termination
proof (relation "measure length")
  show "wf (measure (length :: string \<Rightarrow> nat))" by simp
next
  fix s :: string
  assume "spaceRuneRev s \<noteq> 0"
  moreover have "spaceRuneRev s \<le> length s" by (rule spaceRuneRev_le)
  ultimately show "(drop (spaceRuneRev s) s, s) \<in> measure length" by simp
qed

declare trimLeft.simps [simp del] trimRightRev.simps [simp del]

definition TrimSpace :: "string \<Rightarrow> string" where
  "TrimSpace s = rev (trimRightRev (rev (trimLeft s)))"

text \<open>\<open>strings.SplitN(s, " ", 2)\<close>: split at the first space, if there is one.\<close>

fun SplitN2 :: "string \<Rightarrow> string list" where
  "SplitN2 s =
     (if SP \<in> set s then [takeWhile (\<lambda>c. c \<noteq> SP) s, tl (dropWhile (\<lambda>c. c \<noteq> SP) s)]
      else [s])"

text \<open>\<open>strings.Split(s, ",")\<close> for a non-empty separator of one byte.\<close>

fun Split :: "string \<Rightarrow> char \<Rightarrow> string list" where
  "Split [] sep = [[]]"
| "Split (c # cs) sep =
     (if c = sep then [] # Split cs sep
      else (case Split cs sep of [] \<Rightarrow> [[c]] | w # ws \<Rightarrow> (c # w) # ws))"

text \<open>\<open>strings.Index(s, c)\<close> for a byte \<open>c\<close> that occurs in \<open>s\<close>.\<close>

definition Index :: "string \<Rightarrow> char \<Rightarrow> nat" where
  "Index s c = length (takeWhile (\<lambda>x. x \<noteq> c) s)"

text \<open>
  \<open>strconv.Atoi\<close> with a 64-bit \<open>int\<close>: an optional sign and decimal digits, in range.
  \<open>None\<close> stands for its \<open>*NumError\<close>.
\<close>

definition isDigit :: "char \<Rightarrow> bool" where
  "isDigit c = (of_char c \<ge> (48::int) \<and> of_char c \<le> (57::int))"

definition decimal :: "string \<Rightarrow> int" where
  "decimal ds = foldl (\<lambda>n c. n * 10 + (of_char c - 48)) 0 ds"

definition Atoi :: "string \<Rightarrow> int option" where
  "Atoi s =
     (case s of
        [] \<Rightarrow> None
      | c # cs \<Rightarrow>
          let neg = (c = CHR ''-'');
              ds = (if c = CHR ''-'' \<or> c = CHR ''+'' then cs else s)
          in if ds = [] \<or> \<not> list_all isDigit ds then None
             else if neg then
               (if decimal ds > 2 ^ 63 then None else Some (- decimal ds))
             else
               (if decimal ds \<ge> 2 ^ 63 then None else Some (decimal ds)))"

definition startsWithNumber :: "string \<Rightarrow> bool" where
  "startsWithNumber s = (length s > 0 \<and> isDigit (hd s))"

section \<open>Host values (reflect.Value)\<close>

text \<open>
  The values the engine reads through reflection.  \<open>Invalid\<close> is the zero
  \<open>reflect.Value\<close>; \<open>VPtr Invalid\<close> and \<open>VIface Invalid\<close> are a nil pointer and a nil
  interface.  A floating-point number is its IEEE bit pattern.  A map has string keys
  (Go maps have no duplicate keys; the first entry of a key counts).  A struct is the
  list of its fields, each with its name, the value of its \<open>json\<close> tag and its value;
  structs with embedded or unexported fields are not represented.  \<open>VFunc numIn numOut f\<close>
  is a function value with the code \<open>f\<close>.  \<open>WithMethods ms v\<close> is the value \<open>v\<close> of a
  type with the exported methods \<open>ms\<close>, in the order of \<open>Type.Method\<close>; a method is its
  name, \<open>NumIn\<close> and \<open>NumOut\<close> of its type, and its code.  Other kinds (the sized
  integers, channels, nil slices, maps with other keys) are not represented.
\<close>

type_synonym gomethod = "string \<times> nat \<times> nat \<times> nat"

datatype rvalue =
    Invalid
  | VBool bool
  | VInt int
  | VInt64 int
  | VUint64 nat
  | VFloat64 "64 word"
  | VComplex128 "64 word" "64 word"
  | VString string
  | VSlice "rvalue list"
  | VArray "rvalue list"
  | VMap "(string \<times> rvalue) list"
  | VStruct "(string \<times> string \<times> rvalue) list"
  | VPtr rvalue
  | VIface rvalue
  | VFunc nat nat nat
  | WithMethods "gomethod list" rvalue

fun underlying :: "rvalue \<Rightarrow> rvalue" where
  "underlying (WithMethods ms v) = underlying v"
| "underlying v = v"

fun methods :: "rvalue \<Rightarrow> gomethod list" where
  "methods (WithMethods ms v) = ms"
| "methods v = []"

definition IsValid :: "rvalue \<Rightarrow> bool" where
  "IsValid v = (underlying v \<noteq> Invalid)"

lemma size_underlying: "size (underlying v) \<le> size v"
  by (induction v rule: underlying.induct) auto

text \<open>
  What a call of host code through \<open>Value.Call\<close> gives: a panic, or its results.  Of a
  second result the engine only asks \<open>IsNil\<close> and converts it to \<open>error\<close>: it is nil, an
  error, or something else (where \<open>IsNil\<close> or the type assertion panics).
\<close>

datatype second = Nil | IsError error | NotError

datatype callret = CallPanic | Ret0 | Ret1 rvalue | Ret2 rvalue second

section \<open>The element tree and the template\<close>

datatype element =
    textElement string
  | varElement string bool
  | sectionElement string bool nat "element list"
  | partialElement string string

text \<open>
  \<open>Template\<close>: the source, the delimiters in force, the cursor, the line counter, the
  elements collected so far, the \<open>forceRaw\<close> flag, the escape function and the optional
  formatter.  Its partial provider is part of \<open>getPartials\<close> below.
\<close>

record Template =
  data :: string
  otag :: string
  ctag :: string
  p :: nat
  curline :: nat
  elems :: "element list"
  forceRaw :: bool
  escape :: "string \<Rightarrow> string"
  formatter :: "(rvalue \<Rightarrow> string result) option"

text \<open>
  What the engine takes from outside this repository, as parameters:
  \<^item> \<open>AllowMissingVariables\<close>, the package variable;
  \<^item> \<open>literal\<close>, the chain \<open>strconv.ParseInt(name, 0, 64)\<close>, \<open>ParseUint\<close>, \<open>ParseFloat\<close>,
    \<open>ParseBool\<close>, \<open>ParseComplex\<close> of \<open>lookup\<close>: the value of the first that accepts
    \<open>name\<close>, \<open>None\<close> when all reject it;
  \<^item> \<open>call f args\<close>, running the code of a function or method value;
  \<^item> \<open>lambda f text render\<close>, running a section's callable on the section text and
    the render callback;
  \<^item> \<open>floatToInt\<close> and \<open>floatIsZero\<close>, \<open>Value.Convert\<close> to \<open>int\<close> and \<open>Value.IsZero\<close> on
    floating-point bits;
  \<^item> \<open>Sprint\<close>, \<open>fmt.Sprint\<close> of the values that are not booleans, integers or strings;
  \<^item> \<open>valueString\<close>, \<open>Value.String\<close> of a value that is no string;
  \<^item> \<open>getPartials name indent\<close>, the compiled partial of that name for that
    indentation, from the template's partial provider.
\<close>

record host =
  AllowMissingVariables :: bool
  literal :: "string \<Rightarrow> rvalue option"
  call :: "nat \<Rightarrow> rvalue list \<Rightarrow> callret"
  lambda :: "nat \<Rightarrow> string \<Rightarrow> (string \<Rightarrow> string result option) \<Rightarrow> callret"
  floatToInt :: "64 word \<Rightarrow> int"
  floatIsZero :: "64 word \<Rightarrow> bool"
  Sprint :: "rvalue \<Rightarrow> string"
  valueString :: "rvalue \<Rightarrow> string"
  getPartials :: "string \<Rightarrow> string \<Rightarrow> Template result"

section \<open>Path resolution\<close>

text \<open>\<open>unwrap\<close> (and \<open>indirect\<close>, the same loop): follow pointers and interfaces.\<close>

function unwrap :: "rvalue \<Rightarrow> rvalue" where
  "unwrap v =
     (case underlying v of
        VPtr x \<Rightarrow> unwrap x
      | VIface x \<Rightarrow> unwrap x
      | _ \<Rightarrow> v)"
  by pat_completeness auto
termination
proof (relation "measure size")
  show "wf (measure (size :: rvalue \<Rightarrow> nat))" by simp
next
  fix v x :: rvalue
  assume "underlying v = VPtr x"
  with size_underlying [of v] show "(x, v) \<in> measure size" by simp
next
  fix v x :: rvalue
  assume "underlying v = VIface x"
  with size_underlying [of v] show "(x, v) \<in> measure size" by simp
qed

declare unwrap.simps [simp del]

definition indirect :: "rvalue \<Rightarrow> rvalue" where
  "indirect v = unwrap v"

text \<open>
  \<open>Value.MapIndex\<close> on a map with string keys: a key of another type panics, a missing
  key gives the zero Value.
\<close>

definition MapIndex :: "(string \<times> rvalue) list \<Rightarrow> rvalue \<Rightarrow> rvalue result" where
  "MapIndex kvs key =
     (case key of
        VString k \<Rightarrow> (case map_of kvs k of None \<Rightarrow> Ok Invalid | Some v \<Rightarrow> Ok v)
      | _ \<Rightarrow> Panic)"

text \<open>\<open>Value.Index\<close>: out of range panics.\<close>

definition ValueIndex :: "rvalue list \<Rightarrow> int \<Rightarrow> rvalue result" where
  "ValueIndex xs i = (if i < 0 \<or> i \<ge> int (length xs) then Panic else Ok (xs ! nat i))"

definition FieldByName :: "(string \<times> string \<times> rvalue) list \<Rightarrow> string \<Rightarrow> rvalue" where
  "FieldByName fs name =
     (case find (\<lambda>(f, tg, v). f = name) fs of None \<Rightarrow> Invalid | Some (f, tg, v) \<Rightarrow> v)"

text \<open>
  The \<open>FieldByNameFunc\<close> call of \<open>lookup\<close>: the field whose \<open>json\<close> tag, up to its first
  comma, is \<open>name\<close> (an empty tag and the tag \<open>-\<close> are skipped).  Several matching
  fields cancel each other.
\<close>

definition FieldByJsonTag :: "(string \<times> string \<times> rvalue) list \<Rightarrow> string \<Rightarrow> rvalue" where
  "FieldByJsonTag fs name =
     (case filter (\<lambda>(f, jsonTag, v). \<not> (jsonTag = [] \<or> jsonTag = ''-'')
                      \<and> hd (Split jsonTag (CHR '','')) = name) fs of
        [(f, tg, v)] \<Rightarrow> v
      | _ \<Rightarrow> Invalid)"

text \<open>
  The loop over the methods of a value in \<open>lookup\<close>: \<open>None\<close> when no method answers.
  A method \<open>Lookup\<close> with two inputs and two outputs is called with the name; a method
  of that name with only its receiver is called with no argument.
\<close>

fun methodProbe :: "host \<Rightarrow> string \<Rightarrow> gomethod list \<Rightarrow> rvalue result option" where
  "methodProbe H name [] = None"
| "methodProbe H name ((mname, numIn, numOut, f) # ms) =
     (if mname = ''Lookup'' \<and> numIn = 2 \<and> numOut = 2 then
        Some (case call H f [VString name] of
                Ret2 r0 Nil \<Rightarrow> Ok r0
              | Ret2 r0 (IsError e) \<Rightarrow> Err e
              | _ \<Rightarrow> Panic)
      else if mname = name \<and> numIn = 1 then
        Some (case call H f [] of
                Ret1 r0 \<Rightarrow> Ok r0
              | Ret2 r0 r1 \<Rightarrow> Ok r0
              | _ \<Rightarrow> Panic)
      else methodProbe H name ms)"

text \<open>
  The inner loop \<open>for v.IsValid()\<close> of \<open>lookup\<close> on one context: \<open>Some r\<close> when the
  function returns (or panics) there, \<open>None\<close> for \<open>continue Outer\<close>.
\<close>

function probe :: "host \<Rightarrow> string \<Rightarrow> rvalue \<Rightarrow> rvalue result option" where
  "probe H name v =
     (if \<not> IsValid v then None
      else case methodProbe H name (methods v) of
        Some r \<Rightarrow> Some r
      | None \<Rightarrow>
          if name = ''.'' then Some (Ok v)
          else case underlying v of
            VPtr x \<Rightarrow> probe H name x
          | VIface x \<Rightarrow> probe H name x
          | VStruct fs \<Rightarrow>
              if IsValid (FieldByName fs name) then Some (Ok (FieldByName fs name))
              else if IsValid (FieldByJsonTag fs name) then Some (Ok (FieldByJsonTag fs name))
              else None
          | VMap kvs \<Rightarrow>
              (case MapIndex kvs (VString name) of
                 Ok ret \<Rightarrow> if IsValid ret then Some (Ok ret) else None
               | r \<Rightarrow> Some r)
          | VSlice xs \<Rightarrow>
              if name = ''length'' \<or> name = ''len'' then Some (Ok (VInt (int (length xs))))
              else (case Atoi name of
                      None \<Rightarrow> Some (Err (NumError name))
                    | Some index \<Rightarrow>
                        (case ValueIndex xs index of
                           Ok ret \<Rightarrow> if IsValid ret then Some (Ok ret) else None
                         | r \<Rightarrow> Some r))
          | _ \<Rightarrow> None)"
  by pat_completeness auto
termination
proof (relation "measure (\<lambda>(H, name, v). size v)")
  show "wf (measure (\<lambda>(H :: host, name :: string, v :: rvalue). size v))" by simp
next
  fix H :: host and name :: string and v x :: rvalue
  assume "underlying v = VPtr x"
  with size_underlying [of v]
  show "((H, name, x), (H, name, v)) \<in> measure (\<lambda>(H, name, v). size v)" by simp
next
  fix H :: host and name :: string and v x :: rvalue
  assume "underlying v = VIface x"
  with size_underlying [of v]
  show "((H, name, x), (H, name, v)) \<in> measure (\<lambda>(H, name, v). size v)" by simp
qed

declare probe.simps [simp del]

text \<open>The outer loop of \<open>lookup\<close> over the contexts, and its last line.\<close>

fun search :: "host \<Rightarrow> string \<Rightarrow> rvalue list \<Rightarrow> rvalue result" where
  "search H name [] = Err (newMissingVariableError name)"
| "search H name (ctx # rest) =
     (case probe H name ctx of Some r \<Rightarrow> r | None \<Rightarrow> search H name rest)"

text \<open>
  \<open>lookupFunction\<close>: its inner loop on one context (\<open>Some f\<close> when it returns the
  function, \<open>None\<close> for \<open>continue Outer\<close>), and its outer loop.  A method found is
  returned as the method value, whose type has lost the receiver.
\<close>

fun findMethod :: "string \<Rightarrow> nat \<Rightarrow> gomethod list \<Rightarrow> rvalue option" where
  "findMethod s numInputs [] = None"
| "findMethod s numInputs ((mname, numIn, numOut, f) # ms) =
     (if mname = s \<and> numIn = numInputs + 1 \<and> (numOut = 1 \<or> numOut = 2)
      then Some (VFunc numInputs numOut f)
      else findMethod s numInputs ms)"

lemma size_map_of: "map_of kvs k = Some x \<Longrightarrow> size x < size (VMap kvs)"
proof (induction kvs)
  case Nil
  then show ?case by simp
next
  case (Cons kv kvs)
  obtain k' v' where kv: "kv = (k', v')" by (cases kv)
  show ?case
  proof (cases "k' = k")
    case True
    with Cons.prems kv show ?thesis by simp
  next
    case False
    with Cons.prems kv have "map_of kvs k = Some x" by simp
    then have "size x < size (VMap kvs)" by (rule Cons.IH)
    then show ?thesis by simp
  qed
qed

function funcProbe :: "string \<Rightarrow> nat \<Rightarrow> rvalue \<Rightarrow> rvalue option" where
  "funcProbe s numInputs v =
     (if \<not> IsValid v then None
      else case findMethod s numInputs (methods v) of
        Some f \<Rightarrow> Some f
      | None \<Rightarrow>
          (case underlying v of
             VFunc numIn numOut f \<Rightarrow>
               if numIn = numInputs \<and> (numOut = 1 \<or> numOut = 2)
               then Some (VFunc numIn numOut f) else None
           | VPtr x \<Rightarrow> funcProbe s numInputs x
           | VIface x \<Rightarrow> funcProbe s numInputs x
           | VMap kvs \<Rightarrow>
               (case map_of kvs s of None \<Rightarrow> None | Some x \<Rightarrow> funcProbe s numInputs x)
           | _ \<Rightarrow> None))"
  by pat_completeness auto
termination
proof (relation "measure (\<lambda>(s, n, v). size v)")
  show "wf (measure (\<lambda>(s :: string, n :: nat, v :: rvalue). size v))" by simp
next
  fix s :: string and n :: nat and v x :: rvalue
  assume "underlying v = VPtr x"
  with size_underlying [of v]
  show "((s, n, x), (s, n, v)) \<in> measure (\<lambda>(s, n, v). size v)" by simp
next
  fix s :: string and n :: nat and v x :: rvalue
  assume "underlying v = VIface x"
  with size_underlying [of v]
  show "((s, n, x), (s, n, v)) \<in> measure (\<lambda>(s, n, v). size v)" by simp
next
  fix s :: string and n :: nat and v x :: rvalue and kvs
  assume "underlying v = VMap kvs" and "map_of kvs s = Some x"
  with size_underlying [of v] size_map_of [of kvs s x]
  show "((s, n, x), (s, n, v)) \<in> measure (\<lambda>(s, n, v). size v)" by simp
qed

declare funcProbe.simps [simp del]

fun searchFunction :: "string \<Rightarrow> nat \<Rightarrow> rvalue list \<Rightarrow> error + rvalue" where
  "searchFunction s numInputs [] = Inl (MissingFunction s)"
| "searchFunction s numInputs (ctx # rest) =
     (case funcProbe s numInputs ctx of Some f \<Rightarrow> Inr f | None \<Rightarrow> searchFunction s numInputs rest)"

definition lookupFunction :: "rvalue list \<Rightarrow> rvalue option \<Rightarrow> string \<Rightarrow> nat \<Rightarrow> error + rvalue" where
  "lookupFunction contextChain left s numInputs =
     searchFunction s numInputs (case left of None \<Rightarrow> contextChain | Some l \<Rightarrow> [l])"

text \<open>
  The deferred \<open>recover\<close> of \<open>lookup\<close>: a panic is printed and swallowed, and the function
  returns the zero values of its results, the zero Value and a nil error.
\<close>

fun recover :: "rvalue result \<Rightarrow> error + rvalue" where
  "recover Panic = Inr Invalid"
| "recover (Err e) = Inl e"
| "recover (Ok v) = Inr v"

text \<open>The part after the closing bracket or parenthesis, without a leading dot.\<close>

definition dropDot :: "string \<Rightarrow> string" where
  "dropDot rest = (if rest \<noteq> [] \<and> hd rest = CHR ''.'' then tl rest else rest)"

text \<open>The results of the argument lookups, up to the first error.\<close>

fun collect :: "(error + rvalue) list \<Rightarrow> error + rvalue list" where
  "collect [] = Inr []"
| "collect (Inl e # rs) = Inl e"
| "collect (Inr v # rs) = (case collect rs of Inl e \<Rightarrow> Inl e | Inr vs \<Rightarrow> Inr (v # vs))"

text \<open>\<open>Value.CanConvert\<close> and \<open>Value.Convert\<close> to \<open>int\<close>, then \<open>Value.Int\<close>.\<close>

fun toInt :: "host \<Rightarrow> rvalue \<Rightarrow> int option result" where
  "toInt H (VInt i) = Ok (Some i)"
| "toInt H (VInt64 i) = Ok (Some i)"
| "toInt H (VUint64 n) = Ok (Some (sint (word_of_nat n :: 64 word)))"
| "toInt H (VFloat64 f) = Ok (Some (floatToInt H f))"
| "toInt H Invalid = Panic"
| "toInt H v = Ok None"

lemma length_trimLeft_le: "length (trimLeft s) \<le> length s"
proof (induction s rule: trimLeft.induct)
  case (1 s)
  show ?case
  proof (cases "spaceRune s = 0")
    case True
    then show ?thesis by (simp add: trimLeft.simps [of s])
  next
    case False
    with "1" have "length (trimLeft (drop (spaceRune s) s)) \<le> length (drop (spaceRune s) s)"
      by simp
    with False show ?thesis by (simp add: trimLeft.simps [of s])
  qed
qed

lemma length_trimRightRev_le: "length (trimRightRev s) \<le> length s"
proof (induction s rule: trimRightRev.induct)
  case (1 s)
  show ?case
  proof (cases "spaceRuneRev s = 0")
    case True
    then show ?thesis by (simp add: trimRightRev.simps [of s])
  next
    case False
    with "1" have "length (trimRightRev (drop (spaceRuneRev s) s)) \<le> length (drop (spaceRuneRev s) s)"
      by simp
    with False show ?thesis by (simp add: trimRightRev.simps [of s])
  qed
qed

lemma length_TrimSpace_le: "length (TrimSpace s) \<le> length s"
proof -
  have "length (TrimSpace s) \<le> length (rev (trimLeft s))"
    unfolding TrimSpace_def using length_trimRightRev_le [of "rev (trimLeft s)"] by simp
  also have "\<dots> \<le> length s" using length_trimLeft_le [of s] by simp
  finally show ?thesis .
qed

lemma length_Split_le: "w \<in> set (Split s sep) \<Longrightarrow> length w \<le> length s"
proof (induction s arbitrary: w)
  case Nil
  then show ?case by simp
next
  case (Cons c cs)
  show ?case
  proof (cases "c = sep")
    case True
    with Cons.prems have "w = [] \<or> w \<in> set (Split cs sep)" by auto
    with Cons.IH show ?thesis by fastforce
  next
    case False
    show ?thesis
    proof (cases "Split cs sep")
      case Nil
      with False Cons.prems show ?thesis by simp
    next
      case (Cons u us)
      with False Cons.prems have "w = c # u \<or> w \<in> set us" by auto
      moreover have "length u \<le> length cs" using Cons.IH [of u] Cons by simp
      moreover have "w \<in> set us \<Longrightarrow> length w \<le> length cs" using Cons.IH [of w] Cons by simp
      ultimately show ?thesis by auto
    qed
  qed
qed

lemma Index_less: "c \<in> set s \<Longrightarrow> Index s c < length s"
  unfolding Index_def by (induction s) auto

lemma find_in_set: "find P xs = Some c \<Longrightarrow> c \<in> set xs"
  by (induction xs) (auto split: if_splits)

lemma length_slice_less: "j < length s \<Longrightarrow> length (slice s i j) < length s"
  unfolding slice_def by simp

lemma length_dropDot_le: "length (dropDot s) \<le> length s"
  unfolding dropDot_def by simp

lemma length_dropDot_drop: "s \<noteq> [] \<Longrightarrow> length (dropDot (drop (Suc k) s)) < length s"
proof -
  assume "s \<noteq> []"
  then have "length (drop (Suc k) s) < length s" by simp
  with length_dropDot_le [of "drop (Suc k) s"] show ?thesis by simp
qed

lemma length_arg_less:
  assumes "j < length s" and "w \<in> set (Split (slice s i j) sep)"
  shows "length (TrimSpace w) < length s"
proof -
  have "length (TrimSpace w) \<le> length w" by (rule length_TrimSpace_le)
  also have "\<dots> \<le> length (slice s i j)" using assms(2) by (rule length_Split_le)
  also have "\<dots> < length s" using assms(1) by (rule length_slice_less)
  finally show ?thesis .
qed

text \<open>
  \<open>lookup\<close>.  The branches are tried in the order of the source: the first of the
  characters \<open>.\<close>, \<open>[\<close> and \<open>(\<close> in the name selects the dot, index or call form; then
  come the quoted literal, the \<open>strconv\<close> literals and the search of the contexts.
  A slice expression with a start beyond its end panics (a \<open>]\<close> or \<open>)\<close> before the
  opening character, a quoted literal of a single quote character), and so does the type
  assertion on a nil \<open>left\<close>.  Every call runs under its own \<open>recover\<close>.  The Value
  returned next to a non-nil error is read by no caller and is left out.
\<close>

function lookup :: "host \<Rightarrow> rvalue list \<Rightarrow> rvalue option \<Rightarrow> string \<Rightarrow> error + rvalue" where
  "lookup H contextChain left name = recover
     (let start = find (\<lambda>c. c \<in> set ''.[('') name in
      if start = Some (CHR ''.'') \<and> name \<noteq> ''.'' then
        (let parts0 = takeWhile (\<lambda>c. c \<noteq> CHR ''.'') name;
             parts1 = tl (dropWhile (\<lambda>c. c \<noteq> CHR ''.'') name)
         in case lookup H contextChain left parts0 of
              Inl e \<Rightarrow> Err e
            | Inr v \<Rightarrow>
                if startsWithNumber parts1
                then Err (newErrorWithReason 0 ErrInvalidVariable name)
                else (case lookup H contextChain (Some v) parts1 of
                        Inl e \<Rightarrow> Err e | Inr r \<Rightarrow> Ok r))
      else if start = Some (CHR ''['') \<and> CHR '']'' \<in> set name then
        (let openIndex = Index name (CHR ''['');
             closeIndex = Index name (CHR '']'');
             arrayVariable = (if openIndex > 0 then take openIndex name else []);
             indexVariable = slice name (openIndex + 1) closeIndex;
             rest = dropDot (if closeIndex + 1 < length name
                             then drop (closeIndex + 1) name else [])
         in if closeIndex < openIndex + 1 then Panic
            else case (if arrayVariable \<noteq> []
                       then (case lookup H contextChain left arrayVariable of
                               Inl e \<Rightarrow> Err e | Inr v \<Rightarrow> Ok v)
                       else (case left of None \<Rightarrow> Panic | Some l \<Rightarrow> Ok l)) of
              Panic \<Rightarrow> Panic
            | Err e \<Rightarrow> Err e
            | Ok v0 \<Rightarrow>
                (case lookup H contextChain None indexVariable of
                   Inl e \<Rightarrow> Err e
                 | Inr indexValue0 \<Rightarrow>
                     (case (case underlying (unwrap v0) of
                              VMap kvs \<Rightarrow>
                                (case MapIndex kvs (unwrap indexValue0) of
                                   Panic \<Rightarrow> Panic
                                 | Err e \<Rightarrow> Err e
                                 | Ok v \<Rightarrow>
                                     if \<not> IsValid v
                                     then Err (newErrorWithReason 0 ErrInvalidVariable name)
                                     else Ok v)
                            | VArray xs \<Rightarrow>
                                (case toInt H (unwrap indexValue0) of
                                   Panic \<Rightarrow> Panic
                                 | Err e \<Rightarrow> Err e
                                 | Ok None \<Rightarrow> Err (newErrorWithReason 0 ErrInvalidVariable name)
                                 | Ok (Some i) \<Rightarrow> ValueIndex xs i)
                            | VSlice xs \<Rightarrow>
                                (case toInt H (unwrap indexValue0) of
                                   Panic \<Rightarrow> Panic
                                 | Err e \<Rightarrow> Err e
                                 | Ok None \<Rightarrow> Err (newErrorWithReason 0 ErrInvalidVariable name)
                                 | Ok (Some i) \<Rightarrow> ValueIndex xs i)
                            | _ \<Rightarrow> Err (newErrorWithReason 0 ErrInvalidVariable name)) of
                        Panic \<Rightarrow> Panic
                      | Err e \<Rightarrow> Err e
                      | Ok v \<Rightarrow>
                          if rest = [] then Ok v
                          else (case lookup H contextChain (Some v) rest of
                                  Inl e \<Rightarrow> Err e | Inr r \<Rightarrow> Ok r))))
      else if start = Some (CHR ''('') \<and> CHR '')'' \<in> set name then
        (let openIndex = Index name (CHR ''('');
             closeIndex = Index name (CHR '')'');
             funcVariable = take openIndex name;
             argsVariable = slice name (openIndex + 1) closeIndex;
             rest = dropDot (drop (closeIndex + 1) name);
             args = (if argsVariable \<noteq> [] then Split argsVariable (CHR '','') else [])
         in if closeIndex < openIndex + 1 then Panic
            else case lookupFunction contextChain left funcVariable (length args) of
              Inl e \<Rightarrow> Err e
            | Inr v0 \<Rightarrow>
                (case underlying (unwrap v0) of
                   VFunc numIn numOut f \<Rightarrow>
                     (case collect (map (\<lambda>arg. lookup H contextChain None (TrimSpace arg)) args) of
                        Inl e \<Rightarrow> Err e
                      | Inr ins \<Rightarrow>
                          (case (case call H f ins of
                                   CallPanic \<Rightarrow> Panic
                                 | Ret0 \<Rightarrow> Panic
                                 | Ret1 r0 \<Rightarrow> Ok r0
                                 | Ret2 r0 Nil \<Rightarrow> Ok r0
                                 | Ret2 r0 (IsError e) \<Rightarrow> Err e
                                 | Ret2 r0 NotError \<Rightarrow> Panic) of
                             Panic \<Rightarrow> Panic
                           | Err e \<Rightarrow> Err e
                           | Ok r0 \<Rightarrow>
                               if rest = [] then Ok r0
                               else (case lookup H contextChain (Some r0) rest of
                                       Inl e \<Rightarrow> Err e | Inr r \<Rightarrow> Ok r)))
                 | _ \<Rightarrow> Err (newErrorWithReason 0 ErrInvalidVariable name)))
      else if name \<noteq> [] \<and> ((hd name = CHR 0x22 \<and> last name = CHR 0x22)
                           \<or> (hd name = CHR 0x27 \<and> last name = CHR 0x27)) then
        (if length name < 2 then Panic else Ok (VString (slice name 1 (length name - 1))))
      else case literal H name of
        Some val \<Rightarrow> Ok val
      | None \<Rightarrow> search H name (case left of None \<Rightarrow> contextChain | Some l \<Rightarrow> [l]))"
  by pat_completeness auto
termination
proof (relation "measure (\<lambda>(H, chain, left, name). length name)", goal_cases)
  case 1
  show ?case by simp
next
  case (2 H contextChain left name)
  then have "CHR ''.'' \<in> set name" by (metis find_in_set)
  with 2 show ?case using Index_less [of "CHR ''.''" name] by (simp add: Index_def)
next
  case (3 H contextChain left name)
  then have "CHR ''.'' \<in> set name" by (metis find_in_set)
  then have "name \<noteq> []" by auto
  moreover have "length (dropWhile (\<lambda>c. c \<noteq> CHR ''.'') name) \<le> length name"
    by (rule length_dropWhile_le)
  ultimately show ?case using 3 by (cases name) auto
next
  case (4 H contextChain left name)
  then have "CHR ''['' \<in> set name" by (metis find_in_set)
  with 4 show ?case using Index_less [of "CHR ''[''" name] by auto
next
  case (5 H contextChain left name)
  then have "Index name (CHR '']'') < length name" using Index_less by metis
  with 5 show ?case using length_slice_less by simp
next
  case (6 H contextChain left name)
  then have "name \<noteq> []" by auto
  with 6 show ?case using length_dropDot_drop [of name] by (auto simp: dropDot_def)
next
  case (7 H contextChain left name)
  then have "Index name (CHR '')'') < length name" using Index_less by metis
  with 7 show ?case using length_arg_less by (auto split: if_splits)
next
  case (8 H contextChain left name)
  then have "name \<noteq> []" by auto
  with 8 show ?case using length_dropDot_drop [of name] by (auto simp: dropDot_def)
qed

declare lookup.simps [simp del]

definition lookupAllowMissing :: "host \<Rightarrow> rvalue list \<Rightarrow> string \<Rightarrow> bool \<Rightarrow> error + rvalue" where
  "lookupAllowMissing H contextChain name allowMissing =
     (case lookup H contextChain None name of
        Inl err \<Rightarrow> if allowMissing \<and> IsMissingVariableError err then Inr Invalid else Inl err
      | Inr value \<Rightarrow> Inr value)"

section \<open>The tokenizer\<close>

text \<open>
  The loop of \<open>readString\<close>, on the part of the data that starts at index \<open>i\<close>: it
  returns the index where \<open>s\<close> first occurs and the number of line feeds passed
  (the one at the match included), or \<open>None\<close> at the end of the data.
\<close>

fun scan :: "string \<Rightarrow> string \<Rightarrow> nat \<Rightarrow> nat \<Rightarrow> (nat \<times> nat) option" where
  "scan s [] i newlines = None"
| "scan s (c # cs) i newlines =
     (if length s > length (c # cs) then None
      else let newlines' = (if c = LF then Suc newlines else newlines) in
        if c \<noteq> hd s then scan s cs (Suc i) newlines'
        else if take (length s) (c # cs) = s then Some (i, newlines')
        else scan s cs (Suc i) newlines')"

text \<open>
  \<open>readString\<close> returns the text, whether it stopped with \<open>io.EOF\<close>, and the template.
  With an empty \<open>s\<close> the source indexes \<open>s[0]\<close> (or the data past its end) and panics.
\<close>

definition readString :: "Template \<Rightarrow> string \<Rightarrow> (string \<times> bool \<times> Template) result" where
  "readString tmpl s =
     (if s = [] \<or> p tmpl > length (data tmpl) then Panic
      else case scan s (drop (p tmpl) (data tmpl)) (p tmpl) 0 of
        None \<Rightarrow> Ok (drop (p tmpl) (data tmpl), True, tmpl)
      | Some (i, newlines) \<Rightarrow>
          let e = i + length s in
          Ok (slice (data tmpl) (p tmpl) e, False,
              tmpl\<lparr>p := e, curline := curline tmpl + newlines\<rparr>))"

record textReadingResult =
  "text" :: string
  padding :: string
  mayStandalone :: bool

text \<open>The backward loop of \<open>readText\<close> over spaces and tabs, down to \<open>pPrev\<close>.\<close>

fun backscan :: "string \<Rightarrow> nat \<Rightarrow> nat \<Rightarrow> nat" where
  "backscan d 0 pPrev = 0"
| "backscan d (Suc j) pPrev =
     (if Suc j > pPrev then
        (if d ! j \<noteq> SP \<and> d ! j \<noteq> TAB then Suc j else backscan d j pPrev)
      else Suc j)"

definition readText :: "Template \<Rightarrow> (textReadingResult \<times> bool \<times> Template) result" where
  "readText tmpl =
     (let pPrev = p tmpl in
      case readString tmpl (otag tmpl) of
        Panic \<Rightarrow> Panic
      | Err e \<Rightarrow> Err e
      | Ok (txt, eof, t) \<Rightarrow>
          if eof then Ok (\<lparr>text = txt, padding = [], mayStandalone = False\<rparr>, True, t)
          else
            let i = backscan (data t) (p t - length (otag t)) pPrev;
                may = (i = 0 \<or> data t ! (i - 1) = LF)
            in if may then
                 Ok (\<lparr>text = slice (data t) pPrev i,
                      padding = slice (data t) i (p t - length (otag t)),
                      mayStandalone = True\<rparr>, False, t)
               else
                 Ok (\<lparr>text = slice (data t) pPrev (p t - length (otag t)),
                      padding = [], mayStandalone = False\<rparr>, False, t))"

record tagReadingResult =
  tag :: string
  standalone :: bool

definition SkipWhitespaceTagTypes :: string where
  "SkipWhitespaceTagTypes = ''#^/<>=!''"

text \<open>The forward loop of \<open>readTag\<close>: the first index that holds no space or tab.\<close>

fun firstNonBlank :: "string \<Rightarrow> nat \<Rightarrow> nat option" where
  "firstNonBlank [] i = None"
| "firstNonBlank (c # cs) i = (if \<not> (c = SP \<or> c = TAB) then Some i else firstNonBlank cs (Suc i))"

definition readTag :: "Template \<Rightarrow> bool \<Rightarrow> (tagReadingResult \<times> Template) result" where
  "readTag tmpl may =
     (case (if p tmpl < length (data tmpl) \<and> data tmpl ! p tmpl = CHR ''{''
            then readString tmpl (CHR ''}'' # ctag tmpl)
            else readString tmpl (ctag tmpl)) of
        Panic \<Rightarrow> Panic
      | Err e \<Rightarrow> Err e
      | Ok (txt, eof, t) \<Rightarrow>
          if eof then Err (newError (curline t) ErrUnmatchedOpenTag)
          else
            let txt' = take (length txt - length (ctag t)) txt;
                tg = TrimSpace txt'
            in if length tg = 0 then Err (newError (curline t) ErrEmptyTag)
            else
              let eow = (case firstNonBlank (drop (p t) (data t)) (p t) of
                           None \<Rightarrow> p t | Some i \<Rightarrow> i)
              in if may then
                   (if hd tg \<notin> set SkipWhitespaceTagTypes then
                      Ok (\<lparr>tag = tg, standalone = False\<rparr>, t)
                    else if eow = length (data t) then
                      Ok (\<lparr>tag = tg, standalone = True\<rparr>, t\<lparr>p := eow\<rparr>)
                    else if eow < length (data t) \<and> data t ! eow = LF then
                      Ok (\<lparr>tag = tg, standalone = True\<rparr>,
                          t\<lparr>p := eow + 1, curline := curline t + 1\<rparr>)
                    else if eow + 1 < length (data t) \<and> data t ! eow = CR
                            \<and> data t ! (eow + 1) = LF then
                      Ok (\<lparr>tag = tg, standalone = True\<rparr>,
                          t\<lparr>p := eow + 2, curline := curline t + 1\<rparr>)
                    else Ok (\<lparr>tag = tg, standalone = False\<rparr>, t))
                 else Ok (\<lparr>tag = tg, standalone = True\<rparr>, t))"

section \<open>The parser\<close>

text \<open>
  \<open>parseSection\<close> and \<open>parse\<close> are loops that call \<open>parseSection\<close> for a nested
  section.  The first argument bounds the number of iterations and nested calls on a
  path; \<open>None\<close> means that the bound was reached.  The section being built is passed
  as its name, its start line and the elements collected so far; the result is its
  elements and the template.

  \<open>tag[1 : len(tag)-1]\<close> in the \<open>=\<close> case panics when the tag is the single
  character \<open>=\<close>.
\<close>

fun parseSection ::
  "nat \<Rightarrow> string \<Rightarrow> nat \<Rightarrow> element list \<Rightarrow> Template \<Rightarrow> (element list \<times> Template) result option"
where
  "parseSection 0 name startline selems tmpl = None"
| "parseSection (Suc n) name startline selems tmpl =
     (case readText tmpl of
        Panic \<Rightarrow> Some Panic
      | Err e \<Rightarrow> Some (Err e)
      | Ok (textResult, eof, t1) \<Rightarrow>
          if eof then Some (Err (newErrorWithReason startline ErrSectionNoClosingTag name))
          else
            let selems1 = selems @ [textElement (text textResult)] in
            (case readTag t1 (mayStandalone textResult) of
               Panic \<Rightarrow> Some Panic
             | Err e \<Rightarrow> Some (Err e)
             | Ok (tagResult, t2) \<Rightarrow>
                 let selems2 = (if \<not> standalone tagResult
                                then selems1 @ [textElement (padding textResult)] else selems1);
                     tg = tag tagResult;
                     c = hd tg
                 in
                 if c = CHR ''!'' then parseSection n name startline selems2 t2
                 else if c = CHR ''#'' \<or> c = CHR ''^'' then
                   (let nm = TrimSpace (tl tg) in
                    case parseSection n nm (curline t2) [] t2 of
                      None \<Rightarrow> None
                    | Some Panic \<Rightarrow> Some Panic
                    | Some (Err e) \<Rightarrow> Some (Err e)
                    | Some (Ok (es, t3)) \<Rightarrow>
                        parseSection n name startline
                          (selems2 @ [sectionElement nm (c = CHR ''^'') (curline t2) es]) t3)
                 else if c = CHR ''/'' then
                   (let nm = TrimSpace (tl tg) in
                    if nm \<noteq> name
                    then Some (Err (newErrorWithReason (curline t2) ErrInterleavedClosingTag nm))
                    else Some (Ok (selems2, t2)))
                 else if c = CHR ''>'' then
                   parseSection n name startline
                     (selems2 @ [partialElement (TrimSpace (tl tg)) (padding textResult)]) t2
                 else if c = CHR ''='' then
                   (if last tg \<noteq> CHR ''='' then Some (Err (newError (curline t2) ErrInvalidMetaTag))
                    else if length tg < 2 then Some Panic
                    else
                      let newtags = SplitN2 (TrimSpace (slice tg 1 (length tg - 1))) in
                      if length newtags = 2
                      then parseSection n name startline selems2
                             (t2\<lparr>otag := newtags ! 0, ctag := newtags ! 1\<rparr>)
                      else parseSection n name startline selems2 t2)
                 else if c = CHR ''{'' then
                   (if last tg = CHR ''}''
                    then parseSection n name startline
                           (selems2 @ [varElement (TrimSpace (slice tg 1 (length tg - 1))) True]) t2
                    else parseSection n name startline selems2 t2)
                 else if c = CHR ''&'' then
                   parseSection n name startline (selems2 @ [varElement (TrimSpace (tl tg)) True]) t2
                 else
                   parseSection n name startline (selems2 @ [varElement tg (forceRaw t2)]) t2))"

fun parse :: "nat \<Rightarrow> Template \<Rightarrow> Template result option" where
  "parse 0 tmpl = None"
| "parse (Suc n) tmpl =
     (case readText tmpl of
        Panic \<Rightarrow> Some Panic
      | Err e \<Rightarrow> Some (Err e)
      | Ok (textResult, eof, t1) \<Rightarrow>
          if eof then Some (Ok (t1\<lparr>elems := elems t1 @ [textElement (text textResult)]\<rparr>))
          else
            let t1' = t1\<lparr>elems := elems t1 @ [textElement (text textResult)]\<rparr> in
            (case readTag t1' (mayStandalone textResult) of
               Panic \<Rightarrow> Some Panic
             | Err e \<Rightarrow> Some (Err e)
             | Ok (tagResult, t2') \<Rightarrow>
                 let t2 = (if \<not> standalone tagResult
                           then t2'\<lparr>elems := elems t2' @ [textElement (padding textResult)]\<rparr>
                           else t2');
                     tg = tag tagResult;
                     c = hd tg
                 in
                 if c = CHR ''!'' then parse n t2
                 else if c = CHR ''#'' \<or> c = CHR ''^'' then
                   (let nm = TrimSpace (tl tg) in
                    case parseSection n nm (curline t2) [] t2 of
                      None \<Rightarrow> None
                    | Some Panic \<Rightarrow> Some Panic
                    | Some (Err e) \<Rightarrow> Some (Err e)
                    | Some (Ok (es, t3)) \<Rightarrow>
                        parse n (t3\<lparr>elems := elems t3
                                   @ [sectionElement nm (c = CHR ''^'') (curline t2) es]\<rparr>))
                 else if c = CHR ''/'' then Some (Err (newError (curline t2) ErrUnmatchedCloseTag))
                 else if c = CHR ''>'' then
                   parse n (t2\<lparr>elems := elems t2
                              @ [partialElement (TrimSpace (tl tg)) (padding textResult)]\<rparr>)
                 else if c = CHR ''='' then
                   (if last tg \<noteq> CHR ''='' then Some (Err (newError (curline t2) ErrInvalidMetaTag))
                    else if length tg < 2 then Some Panic
                    else
                      let newtags = SplitN2 (TrimSpace (slice tg 1 (length tg - 1))) in
                      if length newtags = 2
                      then parse n (t2\<lparr>otag := newtags ! 0, ctag := newtags ! 1\<rparr>)
                      else parse n t2)
                 else if c = CHR ''{'' then
                   (if last tg = CHR ''}''
                    then parse n (t2\<lparr>elems := elems t2
                                    @ [varElement (TrimSpace (slice tg 1 (length tg - 1))) True]\<rparr>)
                    else parse n t2)
                 else if c = CHR ''&'' then
                   parse n (t2\<lparr>elems := elems t2 @ [varElement (TrimSpace (tl tg)) True]\<rparr>)
                 else
                   parse n (t2\<lparr>elems := elems t2 @ [varElement tg (forceRaw t2)]\<rparr>)))"

text \<open>
  \<open>ParseStringRaw\<close> (through \<open>ParseStringPartialsRaw\<close>): the template starts with the
  delimiters \<open>{{\<close> and \<open>}}\<close>, at index 0 and line 1.  Every iteration of the loops
  moves the cursor past an open delimiter, so \<open>length d + 1\<close> steps are allowed.
\<close>

text \<open>\<open>template.HTMLEscapeString\<close>.\<close>

fun HTMLEscapeString :: "string \<Rightarrow> string" where
  "HTMLEscapeString [] = []"
| "HTMLEscapeString (c # cs) =
     (if c = CHR 0x22 then ''&#34;''
      else if c = CHR 0x27 then ''&#39;''
      else if c = CHR ''&'' then ''&amp;''
      else if c = CHR ''<'' then ''&lt;''
      else if c = CHR ''>'' then ''&gt;''
      else if c = CHR 0x00 then [CHR 0xEF, CHR 0xBF, CHR 0xBD]
      else [c]) @ HTMLEscapeString cs"

definition newTemplate :: "string \<Rightarrow> bool \<Rightarrow> Template" where
  "newTemplate d fr =
     \<lparr>data = d, otag = ''{{'', ctag = ''}}'', p = 0, curline = 1, elems = [], forceRaw = fr,
      escape = HTMLEscapeString, formatter = None\<rparr>"

definition ParseStringRaw :: "string \<Rightarrow> bool \<Rightarrow> Template result option" where
  "ParseStringRaw d fr = parse (Suc (length d)) (newTemplate d fr)"

definition ParseString :: "string \<Rightarrow> Template result option" where
  "ParseString d = ParseStringRaw d False"

section \<open>The renderer\<close>

text \<open>
  \<open>Value.IsZero\<close>.  Slices, maps and functions are not nil here, so they are not zero.
  A field or element is a valid Value, so the case of \<open>Invalid\<close> (where the source
  panics) is not reached from \<open>isEmpty\<close>.
\<close>

fun IsZero :: "host \<Rightarrow> rvalue \<Rightarrow> bool" where
  "IsZero H Invalid = True"
| "IsZero H (VBool b) = (\<not> b)"
| "IsZero H (VInt i) = (i = 0)"
| "IsZero H (VInt64 i) = (i = 0)"
| "IsZero H (VUint64 n) = (n = 0)"
| "IsZero H (VFloat64 f) = floatIsZero H f"
| "IsZero H (VComplex128 re im) = (floatIsZero H re \<and> floatIsZero H im)"
| "IsZero H (VString s) = (s = [])"
| "IsZero H (VSlice xs) = False"
| "IsZero H (VArray xs) = list_all (IsZero H) xs"
| "IsZero H (VMap kvs) = False"
| "IsZero H (VStruct fs) = list_all (\<lambda>(f, tg, v). IsZero H v) fs"
| "IsZero H (VPtr x) = (\<not> IsValid x)"
| "IsZero H (VIface x) = (\<not> IsValid x)"
| "IsZero H (VFunc numIn numOut f) = False"
| "IsZero H (WithMethods ms v) = IsZero H v"

text \<open>\<open>v.Interface() == nil\<close>: the value is a nil interface.\<close>

definition InterfaceIsNil :: "rvalue \<Rightarrow> bool" where
  "InterfaceIsNil v = (case underlying v of VIface x \<Rightarrow> \<not> IsValid x | _ \<Rightarrow> False)"

definition isEmpty :: "host \<Rightarrow> rvalue \<Rightarrow> bool" where
  "isEmpty H v =
     (if \<not> IsValid v \<or> InterfaceIsNil v then True
      else let valueInd = indirect v in
        if \<not> IsValid valueInd then True
        else case underlying valueInd of
          VArray xs \<Rightarrow> length xs = 0
        | VSlice xs \<Rightarrow> length xs = 0
        | VString s \<Rightarrow> length (TrimSpace s) = 0
        | _ \<Rightarrow> IsZero H valueInd)"

text \<open>\<open>getSectionText\<close> and \<open>getElementText\<close> into a fresh buffer.\<close>

fun getElementText :: "element \<Rightarrow> error + string"
  and getSectionText :: "element list \<Rightarrow> error + string"
where
  "getElementText (textElement t) = Inr t"
| "getElementText (varElement name raw) =
     (if raw then Inr (''{{{'' @ name @ ''}}}'') else Inr (''{{'' @ name @ ''}}''))"
| "getElementText (sectionElement name inverted startline es) =
     (case getSectionText es of
        Inl e \<Rightarrow> Inl e
      | Inr body \<Rightarrow>
          Inr ((if inverted then ''{{^'' @ name @ ''}}'' else ''{{#'' @ name @ ''}}'')
               @ body @ ''{{/'' @ name @ ''}}''))"
| "getElementText (partialElement name indent) = Inl UnexpectedElement"
| "getSectionText [] = Inr []"
| "getSectionText (e # es) =
     (case getElementText e of
        Inl err \<Rightarrow> Inl err
      | Inr s \<Rightarrow> (case getSectionText es of Inl err \<Rightarrow> Inl err | Inr r \<Rightarrow> Inr (s @ r)))"

text \<open>
  \<open>fmt.Sprint(val.Interface())\<close>: booleans, integers and strings are written out here,
  an interface value is the value it holds, the rest is the host's \<open>Sprint\<close>.
\<close>

fun digits :: "nat \<Rightarrow> string" where
  "digits n = (if n < 10 then [''0123456789'' ! n]
               else digits (n div 10) @ [''0123456789'' ! (n mod 10)])"

declare digits.simps [simp del]

definition Itoa :: "int \<Rightarrow> string" where
  "Itoa i = (if i < 0 then CHR ''-'' # digits (nat (- i)) else digits (nat i))"

fun fmtSprint :: "host \<Rightarrow> rvalue \<Rightarrow> string" where
  "fmtSprint H (VString s) = s"
| "fmtSprint H (VBool b) = (if b then ''true'' else ''false'')"
| "fmtSprint H (VInt i) = Itoa i"
| "fmtSprint H (VInt64 i) = Itoa i"
| "fmtSprint H (VUint64 n) = digits n"
| "fmtSprint H (VIface x) = (if IsValid x then fmtSprint H x else ''<nil>'')"
| "fmtSprint H v = Sprint H v"

text \<open>
  An outcome of rendering is what the call did (panic, error, or a nil error) and the
  buffer as it stands then.
\<close>

type_synonym outcome = "unit result \<times> string"

text \<open>
  The variable case of \<open>renderElement\<close>, under its own \<open>recover\<close>: after a panic the
  function returns a nil error.
\<close>

definition renderVar :: "host \<Rightarrow> Template \<Rightarrow> string \<Rightarrow> bool \<Rightarrow> rvalue list \<Rightarrow> string \<Rightarrow> outcome" where
  "renderVar H tmpl name raw contextChain buf =
     (case lookupAllowMissing H contextChain name (AllowMissingVariables H) of
        Inl err \<Rightarrow> (Err err, buf)
      | Inr val \<Rightarrow>
          if IsValid val then
            (case formatter tmpl of
               Some fmt \<Rightarrow>
                 (case fmt val of
                    Panic \<Rightarrow> (Ok (), buf)
                  | Err err \<Rightarrow> (Err err, buf)
                  | Ok s \<Rightarrow> (Ok (), buf @ s))
             | None \<Rightarrow>
                 if raw then (Ok (), buf @ fmtSprint H val)
                 else (Ok (), buf @ escape tmpl (fmtSprint H val)))
          else (Ok (), buf))"

text \<open>
  The loops of \<open>renderTemplate\<close> and \<open>renderSection\<close>: run the steps in order on the
  buffer, and stop at the first that does not return a nil error.
\<close>

fun forEach :: "('a \<Rightarrow> string \<Rightarrow> outcome option) \<Rightarrow> 'a list \<Rightarrow> string \<Rightarrow> outcome option" where
  "forEach f [] buf = Some (Ok (), buf)"
| "forEach f (x # xs) buf =
     (case f x buf of
        None \<Rightarrow> None
      | Some (Ok u, buf') \<Rightarrow> forEach f xs buf'
      | Some r \<Rightarrow> Some r)"

text \<open>
  \<open>renderSection\<close> and \<open>renderElement\<close> call each other and \<open>renderTemplate\<close>.  Here they
  take the renderer of a list of elements for the nested calls as the argument \<open>rec\<close>;
  \<open>renderElems\<close> below closes the recursion.

  In \<open>renderSection\<close>, \<open>contextChain[0]\<close> panics on an empty chain.  The render callback
  handed to a callable compiles its text with \<open>ParseString\<close> and renders it on the same
  contexts into a buffer of its own.
\<close>

definition renderSection ::
  "(Template \<Rightarrow> element list \<Rightarrow> rvalue list \<Rightarrow> string \<Rightarrow> outcome option) \<Rightarrow> host \<Rightarrow> Template
     \<Rightarrow> string \<Rightarrow> bool \<Rightarrow> element list \<Rightarrow> rvalue list \<Rightarrow> string \<Rightarrow> outcome option"
where
  "renderSection rec H tmpl name inverted es contextChain buf =
     (case lookupAllowMissing H contextChain name True of
        Inl err \<Rightarrow> Some (Err err, buf)
      | Inr value \<Rightarrow>
          (case contextChain of
             [] \<Rightarrow> Some (Panic, buf)
           | context # others \<Rightarrow>
               if isEmpty H value \<and> \<not> inverted \<or> \<not> isEmpty H value \<and> inverted
               then Some (Ok (), buf)
               else if \<not> inverted then
                 (case underlying (indirect value) of
                    VSlice xs \<Rightarrow> forEach (\<lambda>ctx. rec tmpl es (ctx # contextChain)) xs buf
                  | VArray xs \<Rightarrow> forEach (\<lambda>ctx. rec tmpl es (ctx # contextChain)) xs buf
                  | VMap kvs \<Rightarrow> forEach (\<lambda>ctx. rec tmpl es (ctx # contextChain)) [value] buf
                  | VStruct fs \<Rightarrow> forEach (\<lambda>ctx. rec tmpl es (ctx # contextChain)) [value] buf
                  | VFunc numIn numOut f \<Rightarrow>
                      if numIn \<noteq> 2 \<or> numOut \<noteq> 2 then Some (Err (LambdaSignature name), buf)
                      else (case getSectionText es of
                              Inl err \<Rightarrow> Some (Err err, buf)
                            | Inr txt \<Rightarrow>
                                (case lambda H f txt
                                        (\<lambda>t. case ParseString t of
                                               None \<Rightarrow> None
                                             | Some Panic \<Rightarrow> Some Panic
                                             | Some (Err err) \<Rightarrow> Some (Err err)
                                             | Some (Ok tm) \<Rightarrow>
                                                 (case rec tm (elems tm) contextChain [] of
                                                    None \<Rightarrow> None
                                                  | Some (Panic, out) \<Rightarrow> Some Panic
                                                  | Some (Err err, out) \<Rightarrow> Some (Err err)
                                                  | Some (Ok u, out) \<Rightarrow> Some (Ok out))) of
                                   Ret2 r0 Nil \<Rightarrow>
                                     Some (Ok (), buf @ (case r0 of VString s \<Rightarrow> s
                                                        | _ \<Rightarrow> valueString H r0))
                                 | Ret2 r0 (IsError err) \<Rightarrow> Some (Err (LambdaError name err), buf)
                                 | _ \<Rightarrow> Some (Panic, buf)))
                  | _ \<Rightarrow> forEach (\<lambda>ctx. rec tmpl es (ctx # contextChain)) [value] buf)
               else forEach (\<lambda>ctx. rec tmpl es (ctx # contextChain)) [context] buf))"

definition renderElement ::
  "(Template \<Rightarrow> element list \<Rightarrow> rvalue list \<Rightarrow> string \<Rightarrow> outcome option) \<Rightarrow> host \<Rightarrow> Template
     \<Rightarrow> element \<Rightarrow> rvalue list \<Rightarrow> string \<Rightarrow> outcome option"
where
  "renderElement rec H tmpl element contextChain buf =
     (case element of
        textElement t \<Rightarrow> Some (Ok (), buf @ t)
      | varElement name raw \<Rightarrow> Some (renderVar H tmpl name raw contextChain buf)
      | sectionElement name inverted startline es \<Rightarrow>
          renderSection rec H tmpl name inverted es contextChain buf
      | partialElement name indent \<Rightarrow>
          (case getPartials H name indent of
             Panic \<Rightarrow> Some (Panic, buf)
           | Err err \<Rightarrow> Some (Err err, buf)
           | Ok partial \<Rightarrow> rec partial (elems partial) contextChain buf))"

text \<open>
  The loop over a list of elements.  The first argument bounds the depth of the nested
  calls (sections in sections, partials in partials, the render callback of a
  callable); \<open>None\<close> means that the bound was reached.
\<close>

primrec renderElems ::
  "nat \<Rightarrow> host \<Rightarrow> Template \<Rightarrow> element list \<Rightarrow> rvalue list \<Rightarrow> string \<Rightarrow> outcome option"
where
  "renderElems 0 H tmpl es contextChain buf = None"
| "renderElems (Suc n) H tmpl es contextChain buf =
     forEach (\<lambda>e. renderElement (renderElems n H) H tmpl e contextChain) es buf"

definition renderTemplate :: "nat \<Rightarrow> host \<Rightarrow> Template \<Rightarrow> rvalue list \<Rightarrow> string \<Rightarrow> outcome option" where
  "renderTemplate n H tmpl contextChain buf = renderElems n H tmpl (elems tmpl) contextChain buf"

text \<open>
  \<open>Template.Render\<close> (through \<open>FRender\<close>, on a fresh \<open>bytes.Buffer\<close>): the contexts are
  given as Values already.
\<close>

definition Render :: "nat \<Rightarrow> host \<Rightarrow> Template \<Rightarrow> rvalue list \<Rightarrow> outcome option" where
  "Render n H tmpl contexts = renderTemplate n H tmpl contexts []"

text \<open>
  The package function \<open>Render\<close> (through \<open>RenderRaw\<close> and \<open>RenderPartialsRaw\<close>): compile,
  then render.  A compile error comes back with the empty string.
\<close>

definition RenderString :: "nat \<Rightarrow> host \<Rightarrow> string \<Rightarrow> rvalue list \<Rightarrow> outcome option" where
  "RenderString n H d contexts =
     (case ParseStringRaw d False of
        None \<Rightarrow> None
      | Some Panic \<Rightarrow> Some (Panic, [])
      | Some (Err err) \<Rightarrow> Some (Err err, [])
      | Some (Ok tmpl) \<Rightarrow> Render n H tmpl contexts)"


section \<open>A host for the examples\<close>

text \<open>
  The examples below run on this host: missing variables are allowed, there are no
  callables and no partials, and of the \<open>strconv\<close> literals it knows the decimal integers
  of 64 bits without leading zeros and the booleans; no other name occurs in the
  examples as a literal.
\<close>

definition exampleLiteral :: "string \<Rightarrow> rvalue option" where
  "exampleLiteral s =
     (case Atoi s of
        Some i \<Rightarrow>
          if length (dropWhile (\<lambda>c. c = CHR ''-'' \<or> c = CHR ''+'') s) > 1
             \<and> hd (dropWhile (\<lambda>c. c = CHR ''-'' \<or> c = CHR ''+'') s) = CHR ''0''
          then None else Some (VInt64 i)
      | None \<Rightarrow>
          if s \<in> {''t'', ''T'', ''TRUE'', ''true'', ''True''} then Some (VBool True)
          else if s \<in> {''f'', ''F'', ''FALSE'', ''false'', ''False''} then Some (VBool False)
          else None)"

definition exampleHost :: host where
  "exampleHost =
     \<lparr>AllowMissingVariables = True,
      literal = exampleLiteral,
      call = (\<lambda>f args. CallPanic),
      lambda = (\<lambda>f txt render. CallPanic),
      floatToInt = (\<lambda>w. 0),
      floatIsZero = (\<lambda>w. w = 0),
      Sprint = (\<lambda>v. []),
      valueString = (\<lambda>v. []),
      getPartials = (\<lambda>name indent. Err (HostError ''no partials''))\<rparr>"


text \<open>
  A plain name: none of the characters \<open>.\<close>, \<open>[\<close> and \<open>(\<close>, no quoted literal and no
  \<open>strconv\<close> literal.
\<close>

definition plainName :: "host \<Rightarrow> string \<Rightarrow> bool" where
  "plainName H name =
     (find (\<lambda>c. c \<in> set ''.[('') name = None
      \<and> \<not> (name \<noteq> [] \<and> (hd name = CHR 0x22 \<and> last name = CHR 0x22
                          \<or> hd name = CHR 0x27 \<and> last name = CHR 0x27))
      \<and> literal H name = None)"

section \<open>Lines that a tag shares with other content\<close>






section \<open>Evaluation lemmas\<close>

lemmas parse_defs = ParseString_def ParseStringRaw_def newTemplate_def readText_def readString_def
  readTag_def slice_def Let_def TrimSpace_def trimLeft.simps trimRightRev.simps
  SkipWhitespaceTagTypes_def newError_def newErrorWithReason_def

lemmas render_defs = RenderString_def Render_def renderTemplate_def renderElement_def
  renderSection_def lookupAllowMissing_def IsValid_def isEmpty_def InterfaceIsNil_def
  indirect_def unwrap.simps renderVar_def Itoa_def digits.simps newMissingVariableError_def

text \<open>
  A name without \<open>.\<close>, \<open>[\<close> and \<open>(\<close> that is no quoted and no \<open>strconv\<close> literal, and the
  name \<open>.\<close>, are searched in the contexts.
\<close>

lemma lookup_plain:
  assumes "find (\<lambda>c. c \<in> set ''.[('') name = None"
    and "\<not> (name \<noteq> [] \<and> (hd name = CHR 0x22 \<and> last name = CHR 0x22
                          \<or> hd name = CHR 0x27 \<and> last name = CHR 0x27))"
    and "literal H name = None"
  shows "lookup H chain left name
           = recover (search H name (case left of None \<Rightarrow> chain | Some l \<Rightarrow> [l]))"
  by (subst lookup.simps) (simp only: assms Let_def option.simps if_False simp_thms option.case)

lemma lookup_dot:
  assumes "literal H ''.'' = None"
  shows "lookup H chain left ''.''
           = recover (search H ''.'' (case left of None \<Rightarrow> chain | Some l \<Rightarrow> [l]))"
  by (subst lookup.simps) (simp add: assms)

lemma probe_VMap:
  "name \<noteq> ''.'' \<Longrightarrow> probe H name (VMap kvs)
     = (case map_of kvs name of None \<Rightarrow> None
        | Some v \<Rightarrow> if IsValid v then Some (Ok v) else None)"
  by (subst probe.simps) (simp add: IsValid_def MapIndex_def split: option.splits)

lemma probe_dot: "IsValid v \<Longrightarrow> methods v = [] \<Longrightarrow> probe H ''.'' v = Some (Ok v)"
  by (subst probe.simps) simp

lemma exampleLiteral_None:
  "s \<noteq> [] \<Longrightarrow> \<not> isDigit (last s) \<Longrightarrow> s \<notin> {''t'', ''T'', ''TRUE'', ''true'', ''True''} \<Longrightarrow>
   s \<notin> {''f'', ''F'', ''FALSE'', ''false'', ''False''} \<Longrightarrow> literal exampleHost s = None"
proof -
  assume a: "s \<noteq> []" "\<not> isDigit (last s)"
    and b: "s \<notin> {''t'', ''T'', ''TRUE'', ''true'', ''True''}"
           "s \<notin> {''f'', ''F'', ''FALSE'', ''false'', ''False''}"
  obtain c cs where s: "s = c # cs" using a(1) by (cases s) auto
  have "\<not> list_all isDigit s" using a by (auto simp: list_all_iff)
  moreover have "cs \<noteq> [] \<Longrightarrow> \<not> list_all isDigit cs" using a s by (auto simp: list_all_iff)
  ultimately have "Atoi s = None" using s by (auto simp: Atoi_def Let_def)
  with b show ?thesis by (simp add: exampleHost_def exampleLiteral_def)
qed


lemma forEach_single: "forEach f [x] buf = f x buf"
proof (cases "f x buf")
  case None
  then show ?thesis by simp
next
  case (Some r)
  obtain st out where r: "r = (st, out)" by (cases r)
  show ?thesis using Some r by (cases st) simp_all
qed

lemma search_maps_missing:
  assumes "\<forall>c \<in> set chain. \<exists>kvs. c = VMap kvs \<and> map_of kvs name = None" and "name \<noteq> ''.''"
  shows "search H name chain = Err (MissingVariableError name)"
  using assms(1)
proof (induction chain)
  case Nil
  show ?case by (simp add: newMissingVariableError_def)
next
  case (Cons c chain)
  then obtain kvs where "c = VMap kvs" "map_of kvs name = None" by auto
  with Cons assms(2) show ?case by (simp add: probe_VMap)
qed

lemma forEach_Ok_all:
  "forEach f xs buf = Some (Ok u, out) \<Longrightarrow> x \<in> set xs \<Longrightarrow> \<exists>b b'. f x b = Some (Ok (), b')"
proof (induction xs arbitrary: buf)
  case Nil
  then show ?case by simp
next
  case (Cons y ys)
  from Cons.prems(1) obtain b1 where y: "f y buf = Some (Ok (), b1)"
    and rest: "forEach f ys b1 = Some (Ok u, out)"
    by (auto split: option.splits prod.splits result.splits)
  show ?case
  proof (cases "x = y")
    case True
    with y show ?thesis by blast
  next
    case False
    with Cons.prems(2) have "x \<in> set ys" by simp
    with rest show ?thesis by (rule Cons.IH)
  qed
qed

lemma renderSection_no_context:
  "renderSection rec H tmpl name inverted body [] buf
     = (case lookupAllowMissing H [] name True of
          Inl err \<Rightarrow> Some (Err err, buf)
        | Inr v \<Rightarrow> Some (Panic, buf))"
  by (simp add: renderSection_def split: sum.splits)

lemma scan_None:
  assumes "s \<noteq> []" and "\<nexists>pre post. xs = pre @ s @ post"
  shows "scan s xs i nl = None"
  using assms(2)
proof (induction xs arbitrary: i nl)
  case Nil
  show ?case by simp
next
  case (Cons c cs)
  have tail: "\<nexists>pre post. cs = pre @ s @ post"
  proof
    assume "\<exists>pre post. cs = pre @ s @ post"
    then obtain pre post where "cs = pre @ s @ post" by blast
    then have "c # cs = (c # pre) @ s @ post" by simp
    with Cons.prems show False by blast
  qed
  have nomatch: "length s \<le> length (c # cs) \<Longrightarrow> take (length s) (c # cs) \<noteq> s"
  proof
    assume "take (length s) (c # cs) = s"
    then have "c # cs = [] @ s @ drop (length s) (c # cs)"
      by (metis append_Nil append_take_drop_id)
    with Cons.prems show False by blast
  qed
  show ?case
  proof (cases "length s > length (c # cs)")
    case True
    then show ?thesis by simp
  next
    case False
    then have "take (length s) (c # cs) \<noteq> s" using nomatch by simp
    with False Cons.IH [OF tail] show ?thesis by (auto simp: Let_def)
  qed
qed

text \<open>Facts about the scanner, \<open>TrimSpace\<close> and the end of the parse loop.\<close>

lemma scan_close:
  "CHR ''}'' \<notin> set body \<Longrightarrow>
   scan ''}}'' (body @ ''}}'' @ rest) i nl
     = Some (i + length body, nl + length (filter (\<lambda>c. c = LF) body))"
proof (induction body arbitrary: i nl)
  case Nil
  show ?case by simp
next
  case (Cons c cs)
  then have "c \<noteq> CHR ''}''" and "CHR ''}'' \<notin> set cs" by auto
  with Cons.IH show ?case by (simp add: Let_def)
qed

lemma trimRightRev_drop: "\<exists>k. trimRightRev s = drop k s"
proof (induction s rule: trimRightRev.induct)
  case (1 s)
  show ?case
  proof (cases "spaceRuneRev s = 0")
    case True
    then have "trimRightRev s = drop 0 s" by (simp add: trimRightRev.simps [of s])
    then show ?thesis by blast
  next
    case False
    with "1" obtain k where "trimRightRev (drop (spaceRuneRev s) s) = drop k (drop (spaceRuneRev s) s)"
      by blast
    with False have "trimRightRev s = drop (spaceRuneRev s + k) s"
      by (simp add: trimRightRev.simps [of s] add.commute)
    then show ?thesis by blast
  qed
qed

lemma TrimSpace_take: "\<exists>m. TrimSpace s = take m (trimLeft s)"
proof -
  obtain k where "trimRightRev (rev (trimLeft s)) = drop k (rev (trimLeft s))"
    using trimRightRev_drop by blast
  then have "TrimSpace s = take (length (trimLeft s) - k) (trimLeft s)"
    by (simp add: TrimSpace_def rev_drop)
  then show ?thesis by blast
qed

lemma spaceRune_trimLeft: "spaceRune (trimLeft s) = 0"
proof (induction s rule: trimLeft.induct)
  case (1 s)
  show ?case
  proof (cases "spaceRune s = 0")
    case True
    then show ?thesis by (simp add: trimLeft.simps [of s])
  next
    case False
    with "1" show ?thesis by (simp add: trimLeft.simps [of s])
  qed
qed

lemma spaceRune_0_hd:
  "spaceRune s = 0 \<Longrightarrow> s \<noteq> [] \<Longrightarrow> hd s \<notin> {TAB, LF, CHR 0x0B, CHR 0x0C, CR, SP}"
  by (induction s rule: spaceRune.induct) (auto split: if_splits)

lemma hd_TrimSpace_not_space:
  assumes "TrimSpace s \<noteq> []"
  shows "hd (TrimSpace s) \<notin> {TAB, LF, CHR 0x0B, CHR 0x0C, CR, SP}"
proof -
  obtain m where m: "TrimSpace s = take m (trimLeft s)" using TrimSpace_take by blast
  with assms have ne: "trimLeft s \<noteq> []" "m \<noteq> 0" by auto
  then have "hd (TrimSpace s) = hd (trimLeft s)" using m by (simp add: hd_take)
  with spaceRune_0_hd [OF spaceRune_trimLeft ne(1)] show ?thesis by simp
qed

lemma trimLeft_front:
  assumes "s \<noteq> []" and "hd s = CHR ''{''"
  shows "trimLeft s = s"
proof -
  have "spaceRune s = 0" using assms by (induction s rule: spaceRune.induct) auto
  then show ?thesis by (simp add: trimLeft.simps [of s])
qed

lemma body_not_brace:
  assumes "TrimSpace body \<noteq> []" and "hd (TrimSpace body) = CHR ''=''"
  shows "body \<noteq> [] \<and> hd body \<noteq> CHR ''{''"
proof -
  have ne: "body \<noteq> []"
  proof
    assume "body = []"
    then have "TrimSpace body = []"
      by (simp add: TrimSpace_def trimLeft.simps [of "[]"] trimRightRev.simps [of "[]"])
    with assms(1) show False by simp
  qed
  have "hd body \<noteq> CHR ''{''"
  proof
    assume b: "hd body = CHR ''{''"
    obtain m where m: "TrimSpace body = take m (trimLeft body)" using TrimSpace_take by blast
    with trimLeft_front [OF ne b] have "TrimSpace body = take m body" by simp
    with assms(1) have "hd (TrimSpace body) = hd body" by (auto simp: hd_take)
    with b assms(2) show False by simp
  qed
  with ne show ?thesis by simp
qed

lemma parse_at_end:
  "otag t \<noteq> [] \<Longrightarrow> p t = length (data t) \<Longrightarrow>
   parse (Suc k) t = Some (Ok (t\<lparr>elems := elems t @ [textElement []]\<rparr>))"
  by (simp add: readText_def readString_def)


lemma SplitN2_first_nonempty:
  assumes "TrimSpace x \<noteq> []"
  shows "takeWhile (\<lambda>c. c \<noteq> SP) (TrimSpace x) \<noteq> []"
proof -
  have "hd (TrimSpace x) \<noteq> SP" using hd_TrimSpace_not_space [OF assms] by simp
  with assms show ?thesis by (cases "TrimSpace x") auto
qed






























section \<open>Claims\<close>

subsection \<open>C7: iteration over a sequence\<close>

lemma parse_iteration:
  "ParseStringRaw ''{{#x}}{{.}},{{/x}}'' False
     = Some (Ok ((newTemplate ''{{#x}}{{.}},{{/x}}'' False)
          \<lparr>p := 18, elems := [textElement [], textElement [],
              sectionElement ''x'' False 1
                [textElement [], varElement ''.'' False, textElement '',''],
              textElement []]\<rparr>))"
  by (simp add: parse_defs)

text \<open>
  C7.  The template \<open>{{#x}}{{.}},{{/x}}\<close>, rendered with \<open>x\<close> bound to the sequence
  \<open>[1, 2, 3]\<close>, gives exactly \<open>1,2,3,\<close>: the body is rendered once per element, in order,
  with the element on top of the context stack, where \<open>.\<close> finds it.  This holds on every
  host whose \<open>strconv\<close> takes neither \<open>x\<close> nor \<open>.\<close> for a literal, and for every bound of
  at least 2 on the depth of calls.
\<close>

theorem C7_iteration:
  assumes "literal H ''x'' = None" and "literal H ''.'' = None"
  shows "RenderString (Suc (Suc n)) H ''{{#x}}{{.}},{{/x}}''
            [VMap [(''x'', VSlice [VInt 1, VInt 2, VInt 3])]]
         = Some (Ok (), ''1,2,3,'')"
  using assms
  by (simp add: parse_iteration newTemplate_def render_defs lookup_plain lookup_dot
      probe_VMap probe_dot)

theorem C7_iteration_witness:
  "literal exampleHost ''x'' = None \<and> literal exampleHost ''.'' = None \<and>
   RenderString 2 exampleHost ''{{#x}}{{.}},{{/x}}''
            [VMap [(''x'', VSlice [VInt 1, VInt 2, VInt 3])]]
         = Some (Ok (), ''1,2,3,'')"
proof -
  have a: "literal exampleHost ''x'' = None"
    by (rule exampleLiteral_None) (simp_all add: isDigit_def)
  have b: "literal exampleHost ''.'' = None"
    by (rule exampleLiteral_None) (simp_all add: isDigit_def)
  show ?thesis using a b C7_iteration [OF a b, of 0] by (simp add: numeral_2_eq_2)
qed


subsection \<open>C6: the missing-variable policy at a variable tag\<close>

lemma parse_missing:
  "ParseStringRaw ''{{missing}}'' False
     = Some (Ok ((newTemplate ''{{missing}}'' False)
          \<lparr>p := 11, elems := [textElement [], textElement [], varElement ''missing'' False,
                               textElement []]\<rparr>))"
  by (simp add: parse_defs)

text \<open>
  On contexts that are maps without the key \<open>missing\<close> the code does what the policy
  says: the empty string and no error when \<open>AllowMissingVariables\<close> is true, the
  missing-variable error with the name \<open>missing\<close> when it is false.
\<close>

lemma missing_policy_on_maps:
  assumes "literal H ''missing'' = None"
    and "\<forall>c \<in> set chain. \<exists>kvs. c = VMap kvs \<and> map_of kvs ''missing'' = None"
  shows "RenderString (Suc n) (H\<lparr>AllowMissingVariables := True\<rparr>) ''{{missing}}'' chain
           = Some (Ok (), [])
       \<and> RenderString (Suc n) (H\<lparr>AllowMissingVariables := False\<rparr>) ''{{missing}}'' chain
           = Some (Err (MissingVariableError ''missing''), [])"
proof -
  have "search (H\<lparr>AllowMissingVariables := b\<rparr>) ''missing'' chain
          = Err (MissingVariableError ''missing'')" for b
    using assms(2) by (intro search_maps_missing) simp_all
  moreover have "literal (H\<lparr>AllowMissingVariables := b\<rparr>) ''missing'' = None" for b
    using assms(1) by simp
  ultimately have "lookup (H\<lparr>AllowMissingVariables := b\<rparr>) chain None ''missing''
          = Inl (MissingVariableError ''missing'')" for b
    by (simp add: lookup_plain)
  then show ?thesis
    by (simp add: parse_missing newTemplate_def render_defs)
qed

text \<open>
  C6 describes what the code fails to do when the context is a sequence.  The slice
  \<open>[1]\<close> does not define \<open>missing\<close>, and \<open>{{missing}}\<close> rendered on it returns the error
  of \<open>strconv.Atoi\<close> under both settings of \<open>AllowMissingVariables\<close>: neither the empty
  string without an error under the default policy, nor the missing-variable error
  under the strict one.  On the empty map, which does not define \<open>missing\<close> either, the
  same renders follow the policy.
\<close>

theorem C6_sequence_context_ignores_policy:
  "RenderString 1 (exampleHost\<lparr>AllowMissingVariables := True\<rparr>) ''{{missing}}'' [VSlice [VInt 1]]
      = Some (Err (NumError ''missing''), [])
   \<and> RenderString 1 (exampleHost\<lparr>AllowMissingVariables := False\<rparr>) ''{{missing}}'' [VSlice [VInt 1]]
      = Some (Err (NumError ''missing''), [])
   \<and> RenderString 1 (exampleHost\<lparr>AllowMissingVariables := True\<rparr>) ''{{missing}}'' [VMap []]
      = Some (Ok (), [])
   \<and> RenderString 1 (exampleHost\<lparr>AllowMissingVariables := False\<rparr>) ''{{missing}}'' [VMap []]
      = Some (Err (MissingVariableError ''missing''), [])"
  by code_simp

subsection \<open>C5: a missing section name\<close>

text \<open>
  On a non-empty context stack, a section whose name resolves to the missing-variable
  error is rendered as for an empty value, whatever the host's \<open>AllowMissingVariables\<close>
  is: a plain section writes nothing and returns a nil error, an inverted section is
  its body rendered once with the top context pushed once more.
\<close>

lemma missing_section_on_context:
  assumes "lookup H chain None name = Inl (MissingVariableError nm)" and "chain \<noteq> []"
  shows "renderElems (Suc (Suc n)) H tmpl [sectionElement name inverted line body] chain buf
           = (if inverted then renderElems (Suc n) H tmpl body (hd chain # chain) buf
              else Some (Ok (), buf))"
proof -
  obtain c cs where chain: "chain = c # cs" using assms(2) by (cases chain) auto
  have "renderSection (renderElems (Suc n) H) H tmpl name inverted body chain buf
          = (if inverted then renderElems (Suc n) H tmpl body (c # chain) buf
             else Some (Ok (), buf))"
    unfolding renderSection_def lookupAllowMissing_def
    using assms(1) chain
    by (simp add: isEmpty_def IsValid_def forEach_single del: renderElems.simps forEach.simps)
  then show ?thesis
    using chain by (simp add: forEach_single renderElement_def del: forEach.simps)
qed

text \<open>
  C5 describes what the code fails to do on the empty context stack.  There the name
  \<open>x\<close> resolves to the missing-variable error, and \<open>renderSection\<close> panics at
  \<open>contextChain[0]\<close> under both settings of \<open>AllowMissingVariables\<close>: the inverted section
  does not render its body \<open>Y\<close>, and the plain section does not return a nil error.  The
  variable tag \<open>{{x}}\<close> on the same empty stack renders as the empty string, and on the
  stack of one empty map both sections are rendered as for an empty value.
\<close>

theorem C5_empty_stack_panics:
  "lookup exampleHost [] None ''x'' = Inl (MissingVariableError ''x'')
   \<and> RenderString 2 exampleHost ''{{^x}}Y{{/x}}'' [] = Some (Panic, [])
   \<and> RenderString 2 exampleHost ''{{#x}}Y{{/x}}'' [] = Some (Panic, [])
   \<and> RenderString 2 (exampleHost\<lparr>AllowMissingVariables := False\<rparr>) ''{{^x}}Y{{/x}}'' []
        = Some (Panic, [])
   \<and> RenderString 2 (exampleHost\<lparr>AllowMissingVariables := False\<rparr>) ''{{#x}}Y{{/x}}'' []
        = Some (Panic, [])
   \<and> RenderString 1 exampleHost ''{{x}}'' [] = Some (Ok (), [])
   \<and> RenderString 2 exampleHost ''{{^x}}Y{{/x}}'' [VMap []] = Some (Ok (), ''Y'')
   \<and> RenderString 2 exampleHost ''{{#x}}Y{{/x}}'' [VMap []] = Some (Ok (), [])"
  by code_simp

subsection \<open>C3: a sequence index out of range\<close>

text \<open>
  C3 describes what the code fails to do.  With \<open>a\<close> bound to a sequence of three
  elements, \<open>a[5]\<close> makes \<open>Value.Index\<close> panic; the \<open>recover\<close> of \<open>lookup\<close> swallows the
  panic, \<open>lookup\<close> returns the zero Value with a nil error, and \<open>{{a[5]}}\<close> renders as the
  empty string with a nil error.
\<close>

theorem C3_index_out_of_range:
  "lookup exampleHost [VMap [(''a'', VSlice [VInt 1, VInt 2, VInt 3])]] None ''a[5]'' = Inr Invalid
   \<and> RenderString 1 exampleHost ''{{a[5]}}'' [VMap [(''a'', VSlice [VInt 1, VInt 2, VInt 3])]]
       = Some (Ok (), [])"
  by code_simp

subsection \<open>C4: the search of the context stack\<close>

text \<open>
  C4 describes what the code fails to do.  With a sequence as the inner context and a map
  that defines \<open>name\<close> as the outer one, the lookup of \<open>name\<close> stops at the sequence with
  the error of \<open>strconv.Atoi\<close>; it neither goes on to the map nor ends with the
  missing-variable error.
\<close>

theorem C4_sequence_context_aborts:
  "lookup exampleHost [VSlice [VInt 1, VInt 2, VInt 3], VMap [(''name'', VString ''x'')]] None ''name''
       = Inl (NumError ''name'')
   \<and> RenderString 1 exampleHost ''{{name}}''
         [VSlice [VInt 1, VInt 2, VInt 3], VMap [(''name'', VString ''x'')]]
       = Some (Err (NumError ''name''), [])"
  by code_simp


subsection \<open>C10: sections need a context\<close>

lemma parse_section_x:
  "ParseStringRaw ''{{#x}}Y{{/x}}'' False
     = Some (Ok ((newTemplate ''{{#x}}Y{{/x}}'' False)
          \<lparr>p := 13, elems := [textElement [], textElement [],
              sectionElement ''x'' False 1 [textElement ''Y''], textElement []]\<rparr>))"
  by (simp add: parse_defs)

text \<open>
  C10.  \<open>renderSection\<close> reads \<open>contextChain[0]\<close> right after the name is resolved, before
  the value is classified.  So on an empty context stack a template with a section
  element never renders: whatever the section's value, its inverted flag and its body,
  \<open>renderSection\<close> panics as soon as the resolution of the name returns no error (for
  every plain name, which resolves to the swallowed missing-variable error there, it
  panics), and otherwise returns the error of the resolution.
\<close>

theorem C10_empty_stack:
  assumes "sectionElement name inverted line body \<in> set (elems tmpl)"
  shows "Render n H tmpl [] \<noteq> Some (Ok (), out)
       \<and> renderSection rec H tmpl name inverted body [] buf
           = (case lookupAllowMissing H [] name True of
                Inl err \<Rightarrow> Some (Err err, buf)
              | Inr v \<Rightarrow> Some (Panic, buf))
       \<and> (plainName H name \<longrightarrow>
            renderSection rec H tmpl name inverted body [] buf = Some (Panic, buf))"
proof (intro conjI impI)
  show "Render n H tmpl [] \<noteq> Some (Ok (), out)"
  proof
    assume ok: "Render n H tmpl [] = Some (Ok (), out)"
    then obtain m where n: "n = Suc m" by (cases n) (simp_all add: Render_def renderTemplate_def)
    from ok n have "forEach (\<lambda>e. renderElement (renderElems m H) H tmpl e []) (elems tmpl) []
                      = Some (Ok (), out)"
      by (simp add: Render_def renderTemplate_def)
    from forEach_Ok_all [OF this assms]
    obtain b b' where "renderElement (renderElems m H) H tmpl
                         (sectionElement name inverted line body) [] b = Some (Ok (), b')"
      by blast
    then show False
      by (simp add: renderElement_def renderSection_no_context split: sum.splits)
  qed
next
  show "renderSection rec H tmpl name inverted body [] buf
           = (case lookupAllowMissing H [] name True of
                Inl err \<Rightarrow> Some (Err err, buf)
              | Inr v \<Rightarrow> Some (Panic, buf))"
    by (rule renderSection_no_context)
next
  assume "plainName H name"
  then have "lookup H [] None name = Inl (MissingVariableError name)"
    by (simp add: plainName_def lookup_plain newMissingVariableError_def)
  then show "renderSection rec H tmpl name inverted body [] buf = Some (Panic, buf)"
    by (simp add: renderSection_no_context lookupAllowMissing_def)
qed

theorem C10_empty_stack_witness:
  "sectionElement ''x'' False 1 [textElement ''Y'']
      \<in> set (elems ((newTemplate ''{{#x}}Y{{/x}}'' False)
          \<lparr>p := 13, elems := [textElement [], textElement [],
              sectionElement ''x'' False 1 [textElement ''Y''], textElement []]\<rparr>))
   \<and> plainName exampleHost ''x''
   \<and> RenderString 2 exampleHost ''{{#x}}Y{{/x}}'' [] \<noteq> Some (Ok (), [])
   \<and> renderSection (renderElems 1 exampleHost) exampleHost
        ((newTemplate ''{{#x}}Y{{/x}}'' False)
          \<lparr>p := 13, elems := [textElement [], textElement [],
              sectionElement ''x'' False 1 [textElement ''Y''], textElement []]\<rparr>)
        ''x'' False [textElement ''Y''] [] [] = Some (Panic, [])"
proof -
  let ?T = "(newTemplate ''{{#x}}Y{{/x}}'' False)
          \<lparr>p := 13, elems := [textElement [], textElement [],
              sectionElement ''x'' False 1 [textElement ''Y''], textElement []]\<rparr>"
  have a: "sectionElement ''x'' False 1 [textElement ''Y''] \<in> set (elems ?T)" by simp
  have b: "plainName exampleHost ''x''"
    using exampleLiteral_None [of "''x''"] by (simp add: plainName_def isDigit_def)
  note th = C10_empty_stack [OF a, of 2 exampleHost "[]" "renderElems 1 exampleHost" "[]"]
  from th have r: "Render 2 exampleHost ?T [] \<noteq> Some (Ok (), [])" by (rule conjunct1)
  from th b have s: "renderSection (renderElems 1 exampleHost) exampleHost ?T
                       ''x'' False [textElement ''Y''] [] [] = Some (Panic, [])"
    by blast
  show ?thesis
    using a b r s by (simp add: RenderString_def parse_section_x)
qed

subsection \<open>C9: templates without tags\<close>

text \<open>
  C9.  A source text in which the open delimiter \<open>{{\<close> does not occur compiles to the
  single text element of the whole text, and rendering it on any host and any context
  stack writes exactly the text.
\<close>

theorem C9_identity:
  assumes "\<nexists>pre post. d = pre @ ''{{'' @ post"
  shows "ParseString d = Some (Ok ((newTemplate d False)\<lparr>elems := [textElement d]\<rparr>))
       \<and> RenderString (Suc n) H d chain = Some (Ok (), d)"
proof -
  have "scan ''{{'' d 0 0 = None" using assms by (intro scan_None) simp_all
  then have p: "ParseStringRaw d False = Some (Ok ((newTemplate d False)\<lparr>elems := [textElement d]\<rparr>))"
    by (simp add: ParseStringRaw_def newTemplate_def readText_def readString_def)
  then show ?thesis
    by (simp add: ParseString_def RenderString_def Render_def renderTemplate_def
        renderElement_def newTemplate_def)
qed

theorem C9_identity_witness:
  "(\<nexists>pre post. ''a < b'' = pre @ ''{{'' @ post)
   \<and> ParseString ''a < b'' = Some (Ok ((newTemplate ''a < b'' False)\<lparr>elems := [textElement ''a < b'']\<rparr>))
   \<and> RenderString 1 exampleHost ''a < b'' [] = Some (Ok (), ''a < b'')"
proof -
  have a: "\<nexists>pre post. ''a < b'' = pre @ ''{{'' @ post"
  proof
    assume "\<exists>pre post. ''a < b'' = pre @ ''{{'' @ post"
    then obtain pre post where "''a < b'' = pre @ ''{{'' @ post" by blast
    then have "CHR ''{'' \<in> set ''a < b''" by (metis in_set_conv_decomp append_Cons)
    then show False by simp
  qed
  show ?thesis using a C9_identity [OF a, of 0 exampleHost "[]"] by simp
qed


subsection \<open>C8: a section's children, written back and compiled again\<close>

lemma parse_nested_standalone:
  "ParseStringRaw ''{{#s}}{{#x}}\<newline>{{/x}}\<newline>B{{/s}}'' False
     = Some (Ok ((newTemplate ''{{#s}}{{#x}}\<newline>{{/x}}\<newline>B{{/s}}'' False)
          \<lparr>p := 27, curline := 3,
           elems := [textElement [], textElement [],
                     sectionElement ''s'' False 1
                       [textElement [], sectionElement ''x'' False 1 [textElement ''\<newline>''],
                        textElement ''B''],
                     textElement []]\<rparr>))"
  by (simp add: parse_defs)

lemma parse_reserialized:
  "ParseStringRaw ''{{#x}}\<newline>{{/x}}B'' False
     = Some (Ok ((newTemplate ''{{#x}}\<newline>{{/x}}B'' False)
          \<lparr>p := 13, curline := 2,
           elems := [textElement [],
                     sectionElement ''x'' False 2 [textElement [], textElement []],
                     textElement ''B'']\<rparr>))"
  by (simp add: parse_defs)

text \<open>
  C8 describes what the code fails to do.  In the template \<open>{{#s}}{{#x}}\<close>, newline,
  \<open>{{/x}}\<close>, newline, \<open>B{{/s}}\<close> the tag \<open>{{#x}}\<close> shares its line with \<open>{{#s}}\<close>, so the
  newline behind it is kept as the body of \<open>x\<close>, while the newline behind the standalone
  \<open>{{/x}}\<close> is elided.  \<open>getSectionText\<close> writes the children of \<open>s\<close> back as \<open>{{#x}}\<close>,
  newline, \<open>{{/x}}B\<close>; compiled again, \<open>{{#x}}\<close> is alone on its line and the body of \<open>x\<close>
  is empty.  With \<open>x\<close> true, the children of \<open>s\<close> render as a newline and \<open>B\<close>, the
  template compiled from their text renders as \<open>B\<close>.  No name is bound to a callable.
\<close>

theorem C8_round_trip_changes_output:
  "ParseString ''{{#s}}{{#x}}\<newline>{{/x}}\<newline>B{{/s}}''
     = Some (Ok ((newTemplate ''{{#s}}{{#x}}\<newline>{{/x}}\<newline>B{{/s}}'' False)
          \<lparr>p := 27, curline := 3,
           elems := [textElement [], textElement [],
                     sectionElement ''s'' False 1
                       [textElement [], sectionElement ''x'' False 1 [textElement ''\<newline>''],
                        textElement ''B''],
                     textElement []]\<rparr>))
   \<and> getSectionText [textElement [], sectionElement ''x'' False 1 [textElement ''\<newline>''],
                      textElement ''B'']
       = Inr ''{{#x}}\<newline>{{/x}}B''
   \<and> ParseString ''{{#x}}\<newline>{{/x}}B''
       = Some (Ok ((newTemplate ''{{#x}}\<newline>{{/x}}B'' False)
            \<lparr>p := 13, curline := 2,
             elems := [textElement [],
                       sectionElement ''x'' False 2 [textElement [], textElement []],
                       textElement ''B'']\<rparr>))
   \<and> renderElems 2 exampleHost (newTemplate ''{{#s}}{{#x}}\<newline>{{/x}}\<newline>B{{/s}}'' False)
        [textElement [], sectionElement ''x'' False 1 [textElement ''\<newline>''], textElement ''B'']
        [VMap [(''x'', VBool True)]] []
       = Some (Ok (), ''\<newline>B'')
   \<and> RenderString 2 exampleHost ''{{#x}}\<newline>{{/x}}B'' [VMap [(''x'', VBool True)]]
       = Some (Ok (), ''B'')"
proof -
  have a: "getSectionText [textElement [], sectionElement ''x'' False 1 [textElement ''\<newline>''],
                      textElement ''B'']
       = Inr ''{{#x}}\<newline>{{/x}}B''"
    by simp
  have b: "renderElems 2 exampleHost (newTemplate ''{{#s}}{{#x}}\<newline>{{/x}}\<newline>B{{/s}}'' False)
        [textElement [], sectionElement ''x'' False 1 [textElement ''\<newline>''], textElement ''B'']
        [VMap [(''x'', VBool True)]] []
       = Some (Ok (), ''\<newline>B'')"
    by code_simp
  have c: "RenderString 2 exampleHost ''{{#x}}\<newline>{{/x}}B'' [VMap [(''x'', VBool True)]]
       = Some (Ok (), ''B'')"
    by code_simp
  show ?thesis
    unfolding ParseString_def parse_nested_standalone parse_reserialized
    using a b c by (intro conjI) (rule refl, assumption, rule refl, assumption, assumption)
qed


subsection \<open>C2: the delimiter tag\<close>

text \<open>
  A template that is one delimiter tag \<open>{{body}}\<close> (the trimmed body starts with \<open>=\<close>,
  the body has no \<open>}\<close>): what \<open>ParseString\<close> returns for it.
\<close>

lemma meta_tag_template:
  assumes "CHR ''}'' \<notin> set body" and "TrimSpace body \<noteq> []"
    and "hd (TrimSpace body) = CHR ''=''"
  shows "ParseString (''{{'' @ body @ ''}}'') =
     (let tg = TrimSpace body;
          line = 1 + length (filter (\<lambda>c. c = LF) body);
          inner = TrimSpace (slice tg 1 (length tg - 1))
      in if last tg \<noteq> CHR ''='' then Some (Err (ParseError line ErrInvalidMetaTag []))
         else if length tg < 2 then Some Panic
         else Some (Ok ((newTemplate (''{{'' @ body @ ''}}'') False)
                \<lparr>otag := (if SP \<in> set inner then takeWhile (\<lambda>c. c \<noteq> SP) inner else ''{{''),
                 ctag := (if SP \<in> set inner then tl (dropWhile (\<lambda>c. c \<noteq> SP) inner)
                          else ''}}''),
                 p := length body + 4, curline := line,
                 elems := [textElement [], textElement []]\<rparr>)))"
proof -
  define d where "d = ''{{'' @ body @ ''}}''"
  define tg where "tg = TrimSpace body"
  define line where "line = 1 + length (filter (\<lambda>c. c = LF) body)"
  define inner where "inner = TrimSpace (slice tg 1 (length tg - 1))"
  define t0 where "t0 = newTemplate d False"
  define t1 where "t1 = t0\<lparr>p := 2, curline := 1, elems := [textElement []]\<rparr>"
  define t2 where "t2 = t1\<lparr>p := length d, curline := line\<rparr>"
  have len: "length d = length body + 4" by (simp add: d_def)
  from body_not_brace [OF assms(2,3)] have b: "body \<noteq> []" "hd body \<noteq> CHR ''{''" by simp_all
  have d2: "d ! 2 \<noteq> CHR ''{''" using b by (cases body) (simp_all add: d_def)
  have rt: "readText t0 = Ok (\<lparr>text = [], padding = [], mayStandalone = True\<rparr>, False,
                             t0\<lparr>p := 2, curline := 1\<rparr>)"
    by (simp add: t0_def d_def newTemplate_def readText_def readString_def slice_def)
  have sc: "scan ''}}'' (drop 2 d) 2 0 = Some (2 + length body, length (filter (\<lambda>c. c = LF) body))"
    using scan_close [OF assms(1), of "[]" 2 0] by (simp add: d_def)
  have rs: "readString t1 ''}}'' = Ok (body @ ''}}'', False, t2)"
    using sc by (simp add: readString_def t1_def t0_def newTemplate_def t2_def line_def len slice_def)
      (simp add: d_def)
  have hdtg: "hd tg \<in> set SkipWhitespaceTagTypes"
    using assms(3) by (simp add: tg_def SkipWhitespaceTagTypes_def)
  have rtag: "readTag t1 True = Ok (\<lparr>tag = tg, standalone = True\<rparr>, t2)"
  proof -
    have "p t1 < length (data t1)" "data t1 ! p t1 \<noteq> CHR ''{''" "ctag t1 = ''}}''"
      using d2 len by (simp_all add: t1_def t0_def newTemplate_def)
    moreover have "ctag t2 = ''}}''" "p t2 = length (data t2)" "data t2 = d"
      by (simp_all add: t2_def t1_def t0_def newTemplate_def)
    moreover have "t2\<lparr>p := length d\<rparr> = t2" by (simp add: t2_def)
    ultimately show ?thesis
      using rs hdtg assms(2) by (simp add: readTag_def tg_def [symmetric])
  qed
  have fuel: "Suc (length d) = Suc (Suc (length body + 3))" by (simp add: len)
  have fin: "otag t \<noteq> [] \<Longrightarrow> data t = d \<Longrightarrow> p t = length d \<Longrightarrow>
       parse (Suc k) t = Some (Ok (t\<lparr>elems := elems t @ [textElement []]\<rparr>))" for t k
    using parse_at_end [of t k] by simp
  have c: "hd tg = CHR ''=''" using assms(3) by (simp add: tg_def)
  have t1': "t0\<lparr>p := 2, curline := Suc 0, elems := elems t0 @ [textElement []]\<rparr> = t1"
    by (simp add: t1_def t0_def newTemplate_def)
  have step: "parse (Suc (Suc k)) t0 =
      (if last tg \<noteq> CHR ''='' then Some (Err (newError (curline t2) ErrInvalidMetaTag))
       else if length tg < 2 then Some Panic
       else if length (SplitN2 inner) = 2
         then parse (Suc k) (t2\<lparr>otag := SplitN2 inner ! 0, ctag := SplitN2 inner ! 1\<rparr>)
         else parse (Suc k) t2)" for k
    using c by (simp add: rt t1' rtag inner_def Let_def del: parse.simps(2) SplitN2.simps
        add: parse.simps(2) [of "Suc k" t0])
  have t2facts: "data t2 = d" "p t2 = length d" "otag t2 = ''{{''" "ctag t2 = ''}}''"
    "elems t2 = [textElement []]" "curline t2 = line"
    by (simp_all add: t2_def t1_def t0_def newTemplate_def)
  have res: "parse (Suc (Suc k)) t0 =
      (if last tg \<noteq> CHR ''='' then Some (Err (ParseError line ErrInvalidMetaTag []))
       else if length tg < 2 then Some Panic
       else Some (Ok (t0
                \<lparr>otag := (if SP \<in> set inner then takeWhile (\<lambda>c. c \<noteq> SP) inner else ''{{''),
                 ctag := (if SP \<in> set inner then tl (dropWhile (\<lambda>c. c \<noteq> SP) inner)
                          else ''}}''),
                 p := length body + 4, curline := line,
                 elems := [textElement [], textElement []]\<rparr>)))" for k
  proof (cases "SP \<in> set inner")
    case True
    then have "inner \<noteq> []" by auto
    then have ne: "takeWhile (\<lambda>c. c \<noteq> SP) inner \<noteq> []"
      unfolding inner_def by (rule SplitN2_first_nonempty)
    have "parse (Suc k) (t2\<lparr>otag := takeWhile (\<lambda>c. c \<noteq> SP) inner,
                             ctag := tl (dropWhile (\<lambda>c. c \<noteq> SP) inner)\<rparr>)
          = Some (Ok (t2\<lparr>otag := takeWhile (\<lambda>c. c \<noteq> SP) inner,
                         ctag := tl (dropWhile (\<lambda>c. c \<noteq> SP) inner),
                         elems := [textElement [], textElement []]\<rparr>))"
      using ne t2facts by (subst fin) simp_all
    with True show ?thesis
      by (simp add: step newError_def t2facts len del: parse.simps(2))
        (simp add: t2_def t1_def t0_def newTemplate_def len)
  next
    case False
    have "parse (Suc k) t2 = Some (Ok (t2\<lparr>elems := [textElement [], textElement []]\<rparr>))"
      using t2facts by (subst fin) simp_all
    with False show ?thesis
      by (simp add: step newError_def t2facts len del: parse.simps(2))
        (simp add: t2_def t1_def t0_def newTemplate_def len)
  qed
  show ?thesis
    unfolding ParseString_def ParseStringRaw_def d_def [symmetric] fuel t0_def [symmetric] res
    by (simp add: Let_def tg_def line_def inner_def)
qed


lemma meta_tag_template_example:
  "CHR ''}'' \<notin> set ''=<% %>='' \<and> TrimSpace ''=<% %>='' \<noteq> []
   \<and> hd (TrimSpace ''=<% %>='') = CHR ''=''
   \<and> ParseString ''{{=<% %>=}}''
       = Some (Ok ((newTemplate ''{{=<% %>=}}'' False)
            \<lparr>otag := ''<%'', ctag := ''%>'', p := 11, curline := 1,
             elems := [textElement [], textElement []]\<rparr>))"
proof -
  have t: "TrimSpace ''=<% %>='' = ''=<% %>=''"
    by (simp add: TrimSpace_def trimLeft.simps trimRightRev.simps)
  have i: "TrimSpace ''<% %>'' = ''<% %>''"
    by (simp add: TrimSpace_def trimLeft.simps trimRightRev.simps)
  have a: "CHR ''}'' \<notin> set ''=<% %>=''" by simp
  have b: "TrimSpace ''=<% %>='' \<noteq> []" by (simp add: t)
  have c: "hd (TrimSpace ''=<% %>='') = CHR ''=''" by (simp add: t)
  show ?thesis
    using a b c meta_tag_template [OF a b c] by (simp add: t i slice_def Let_def)
qed





text \<open>The same inside a section, where \<open>parseSection\<close> reads the tag.\<close>

lemma ignored_meta_tag_in_section:
  "ParseStringRaw ''{{#s}}{{=abc=}}{{/s}}'' False
     = Some (Ok ((newTemplate ''{{#s}}{{=abc=}}{{/s}}'' False)
          \<lparr>p := 21, elems := [textElement [], textElement [],
              sectionElement ''s'' False 1 [textElement [], textElement []],
              textElement []]\<rparr>))"
  by (simp add: parse_defs)


subsection \<open>C1: standalone lines\<close>




text \<open>
  Rendered examples of tags that share their line with other content: the spaces before
  a comment, before a variable and before a section tag are written, inside a section
  too, and so is the newline behind a section tag that has content before it.
\<close>

lemma shared_line_examples:
  "RenderString 1 exampleHost ''  {{!c}} y'' [] = Some (Ok (), ''   y'')
   \<and> RenderString 1 exampleHost ''  {{x}} y'' [VMap [(''x'', VString ''v'')]]
        = Some (Ok (), ''  v y'')
   \<and> RenderString 2 exampleHost ''{{#s}}  {{!c}} y{{/s}}'' [VMap [(''s'', VBool True)]]
        = Some (Ok (), ''   y'')
   \<and> RenderString 2 exampleHost ''x  {{#s}}\<newline>y{{/s}}'' [VMap [(''s'', VBool True)]]
        = Some (Ok (), ''x  \<newline>y'')"
  by code_simp






end
